theory Spec2Isabelle
  imports Main
begin

section \<open>ProxyHawk WebSocket client: request correlation and event dispatch\<close>

text \<open>
  A shallow embedding of \<^verbatim>\<open>clients/python/proxyhawk_client.py\<close>. The client object is a
  record that every method takes and returns. A coroutine is cut at its \<^verbatim>\<open>await\<close> on the
  response future: what runs up to the await is one function, the messages the receiver
  task handles while the coroutine is suspended are an explicit list, and what runs when the
  coroutine wakes up is a second function that reads the future. A future that is still
  pending when the coroutine wakes up means that \<^verbatim>\<open>asyncio.wait_for\<close> ran into its timeout.
  Exceptions are values of \<open>py_exn\<close>; a method returns \<open>py_exn + result\<close> together
  with the client it leaves behind.
\<close>

subsection \<open>JSON values and Python dictionaries\<close>

text \<open>A Python float is kept as mantissa and exponent; the client never computes with one.\<close>

type_synonym pyfloat = "int \<times> int"

datatype json =
    JNull
  | JBool bool
  | JInt int
  | JFloat pyfloat
  | JStr string
  | JArr "json list"
  | JObj "(string \<times> json) list"

text \<open>
  A decoded JSON object is a dict with string keys, in insertion order. \<^verbatim>\<open>json.loads\<close>
  leaves no key twice; a lookup in the list takes the first entry of a key.
\<close>

type_synonym dict = "(string \<times> json) list"

datatype py_exn =
    RuntimeError string "json list"
  | TimeoutError string "json list"
  | AsyncioTimeoutError
  | CancelledError
  | KeyError string
  | TypeError
  | AttributeError
  | JSONDecodeError
  | ConnectionClosed

text \<open>Python truthiness, as \<^verbatim>\<open>if x:\<close> and \<^verbatim>\<open>x and y\<close> test it.\<close>

fun truthy :: "json \<Rightarrow> bool" where
  "truthy JNull = False"
| "truthy (JBool b) = b"
| "truthy (JInt i) = (i \<noteq> 0)"
| "truthy (JFloat f) = (fst f \<noteq> 0)"
| "truthy (JStr s) = (s \<noteq> [])"
| "truthy (JArr xs) = (xs \<noteq> [])"
| "truthy (JObj kvs) = (kvs \<noteq> [])"

text \<open>\<^verbatim>\<open>d.get(k, default)\<close> and \<^verbatim>\<open>d[k]\<close>.\<close>

definition dict_get :: "dict \<Rightarrow> string \<Rightarrow> json \<Rightarrow> json" where
  "dict_get d k dflt = (case map_of d k of None \<Rightarrow> dflt | Some v \<Rightarrow> v)"

definition dict_item :: "dict \<Rightarrow> string \<Rightarrow> py_exn + json" where
  "dict_item d k = (case map_of d k of None \<Rightarrow> Inl (KeyError k) | Some v \<Rightarrow> Inr v)"

text \<open>\<^verbatim>\<open>x.get(k, default)\<close> on a value that need not be a dict.\<close>

definition attr_get :: "json \<Rightarrow> string \<Rightarrow> json \<Rightarrow> py_exn + json" where
  "attr_get v k dflt = (case v of JObj d \<Rightarrow> Inr (dict_get d k dflt) | _ \<Rightarrow> Inl AttributeError)"

text \<open>\<^verbatim>\<open>x[k]\<close> with a string key on a value that need not be a dict.\<close>

definition subscript :: "json \<Rightarrow> string \<Rightarrow> py_exn + json" where
  "subscript v k = (case v of JObj d \<Rightarrow> dict_item d k | _ \<Rightarrow> Inl TypeError)"

text \<open>\<^verbatim>\<open>for x in v\<close>: a list gives its elements, a dict its keys, a string its characters.\<close>

definition py_iter :: "json \<Rightarrow> py_exn + json list" where
  "py_iter v = (case v of
       JArr xs \<Rightarrow> Inr xs
     | JObj d \<Rightarrow> Inr (map (\<lambda>kv. JStr (fst kv)) d)
     | JStr s \<Rightarrow> Inr (map (\<lambda>c. JStr [c]) s)
     | _ \<Rightarrow> Inl TypeError)"

text \<open>Sequencing of computations that may raise.\<close>

definition bindE :: "'e + 'a \<Rightarrow> ('a \<Rightarrow> 'e + 'b) \<Rightarrow> 'e + 'b" where
  "bindE m f = (case m of Inl e \<Rightarrow> Inl e | Inr a \<Rightarrow> f a)"

fun mapE :: "('a \<Rightarrow> 'e + 'b) \<Rightarrow> 'a list \<Rightarrow> 'e + 'b list" where
  "mapE f [] = Inr []"
| "mapE f (x # xs) = bindE (f x) (\<lambda>y. bindE (mapE f xs) (\<lambda>ys. Inr (y # ys)))"

text \<open>Decimal rendering of the integers an f-string interpolates.\<close>

definition digit :: "nat \<Rightarrow> char" where
  "digit n = ''0123456789'' ! n"

fun str_nat :: "nat \<Rightarrow> string" where
  "str_nat n = (if n < 10 then [digit n] else str_nat (n div 10) @ [digit (n mod 10)])"

declare str_nat.simps [simp del]

definition str_int :: "int \<Rightarrow> string" where
  "str_int i = (if i < 0 then CHR ''-'' # str_nat (nat (- i)) else str_nat (nat i))"

subsection \<open>Configuration and result dataclasses\<close>

datatype test_mode = BASIC | DETAILED | COMPREHENSIVE

fun test_mode_value :: "test_mode \<Rightarrow> string" where
  "test_mode_value BASIC = ''basic''"
| "test_mode_value DETAILED = ''detailed''"
| "test_mode_value COMPREHENSIVE = ''comprehensive''"

record proxyhawk_config =
  url :: string
  regions :: "string list"
  test_mode :: test_mode
  timeout :: pyfloat
  reconnect_delay :: pyfloat
  max_retries :: int

record dns_result =
  dns_query_time :: json
  dns_ip :: json
  dns_ttl :: json
  dns_record_type :: json

record http_result =
  http_request_time :: json
  http_status_code :: json
  http_response_time_ms :: json
  http_headers :: json
  http_server_header :: json
  http_content_hash :: json
  http_content_size :: json
  http_remote_addr :: json

record region_result =
  rr_region :: json
  rr_proxy_used :: json
  rr_dns_results :: "dns_result list"
  rr_http_results :: "http_result list"
  rr_response_time_ms :: json
  rr_success :: json
  rr_error :: json

record test_summary =
  ts_unique_ips :: json
  ts_unique_servers :: json
  ts_response_time_diff_ms :: json
  ts_content_variations :: json
  ts_geographic_spread :: json

record geo_test_result =
  gtr_domain :: json
  gtr_tested_at :: json
  gtr_has_geographic_differences :: json
  gtr_is_round_robin :: json
  gtr_confidence :: json
  gtr_region_results :: "(string \<times> region_result) list"
  gtr_summary :: test_summary

subsection \<open>The client object\<close>

text \<open>
  An \<^verbatim>\<open>asyncio.Future\<close> is an object on the heap: the correlation table holds a reference
  to it and so does the coroutine that awaits it. \<open>futures\<close> is that heap, addressed by
  naturals; \<open>next_future\<close> is the address the next \<^verbatim>\<open>asyncio.Future()\<close> gets.
\<close>

datatype future = Pending | Resolved dict | Cancelled

text \<open>\<^verbatim>\<open>future.done()\<close>: true once a result is set or the future is cancelled.\<close>

fun done_future :: "future \<Rightarrow> bool" where
  "done_future Pending = False"
| "done_future (Resolved m) = True"
| "done_future Cancelled = True"

text \<open>
  A listener is a caller-supplied callable. \<open>cb_raises domain data\<close> is \<open>Some msg\<close> when
  the call raises an \<^verbatim>\<open>Exception\<close> whose text is \<open>msg\<close>, and \<open>None\<close> when it returns.
  Listeners are taken not to touch the client and to raise nothing outside \<^verbatim>\<open>Exception\<close>.
\<close>

record callback =
  cb_id :: nat
  cb_raises :: "json \<Rightarrow> json \<Rightarrow> string option"

datatype level = DEBUG | INFO | WARNING | ERROR

datatype log_arg = LVal json | LStr string | LExn py_exn

text \<open>A log record: level, the f-string with \<open>{}\<close> for each interpolation, the values.\<close>

type_synonym log_entry = "level \<times> string \<times> log_arg list"

text \<open>The websocket: what \<^verbatim>\<open>ws.send\<close> was given, as the request objects before \<^verbatim>\<open>json.dumps\<close>.\<close>

record transport =
  closed :: bool
  sent :: "json list"

record client =
  config :: proxyhawk_config
  ws :: "transport option"
  connected :: bool
  message_handlers :: "string \<rightharpoonup> nat"
  subscriptions :: "string \<rightharpoonup> callback list"
  message_counter :: nat
  global_update_callback :: "callback option"
  futures :: "nat \<Rightarrow> future"
  next_future :: nat
  logger :: "log_entry list"
  calls :: "(nat \<times> json \<times> json) list"

definition log_msg :: "level \<Rightarrow> string \<Rightarrow> log_arg list \<Rightarrow> client \<Rightarrow> client" where
  "log_msg lv fmt args s = s\<lparr>logger := logger s @ [(lv, fmt, args)]\<rparr>"

text \<open>\<^verbatim>\<open>asyncio.Future()\<close>: a fresh pending future.\<close>

definition new_future :: "client \<Rightarrow> nat \<times> client" where
  "new_future s =
     (next_future s,
      s\<lparr>futures := (futures s)(next_future s := Pending), next_future := Suc (next_future s)\<rparr>)"

text \<open>
  \<^verbatim>\<open>future = asyncio.Future(); self._message_handlers[message_id] = future\<close>,
  the two lines with which every request operation registers its completion handle.
\<close>

definition register_handler :: "client \<Rightarrow> string \<Rightarrow> nat \<times> client" where
  "register_handler s message_id =
     (case new_future s of (fut, s1) \<Rightarrow>
        (fut, s1\<lparr>message_handlers := (message_handlers s1)(message_id \<mapsto> fut)\<rparr>))"

text \<open>\<^verbatim>\<open>self._message_handlers.pop(message_id, None)\<close>\<close>

definition pop_handler :: "string \<Rightarrow> client \<Rightarrow> client" where
  "pop_handler message_id s = s\<lparr>message_handlers := (message_handlers s)(message_id := None)\<rparr>"

text \<open>\<^verbatim>\<open>await self.ws.send(json.dumps(request))\<close>\<close>

definition ws_send :: "client \<Rightarrow> json \<Rightarrow> py_exn + client" where
  "ws_send s request =
     (case ws s of
        None \<Rightarrow> Inl AttributeError
      | Some t \<Rightarrow>
          if closed t then Inl ConnectionClosed
          else Inr (s\<lparr>ws := Some (t\<lparr>sent := sent t @ [request]\<rparr>)\<rparr>))"

text \<open>
  \<^verbatim>\<open>_generate_message_id\<close>; \<open>ms\<close> is the value of \<^verbatim>\<open>int(time.time() * 1000)\<close> at the call.
\<close>

definition generate_message_id :: "client \<Rightarrow> int \<Rightarrow> string \<times> client" where
  "generate_message_id s ms =
     (let c = message_counter s + 1
      in (''python_client_'' @ str_int ms @ ''_'' @ str_nat c, s\<lparr>message_counter := c\<rparr>))"

text \<open>\<^verbatim>\<open>on_domain_update\<close>\<close>

definition on_domain_update :: "client \<Rightarrow> callback \<Rightarrow> client" where
  "on_domain_update s cb = s\<lparr>global_update_callback := Some cb\<rparr>"

subsection \<open>Dispatch of inbound messages\<close>

text \<open>One listener call inside \<^verbatim>\<open>try: ... except Exception as e: self.logger.error(...)\<close>.\<close>

definition call_domain_callback :: "json \<Rightarrow> json \<Rightarrow> client \<Rightarrow> callback \<Rightarrow> client" where
  "call_domain_callback domain data s cb =
     (let s1 = s\<lparr>calls := calls s @ [(cb_id cb, domain, data)]\<rparr>
      in case cb_raises cb domain data of
           None \<Rightarrow> s1
         | Some e \<Rightarrow> log_msg ERROR ''Error in domain callback for {}: {}'' [LVal domain, LStr e] s1)"

definition call_global_callback :: "json \<Rightarrow> json \<Rightarrow> client \<Rightarrow> callback \<Rightarrow> client" where
  "call_global_callback domain data s cb =
     (let s1 = s\<lparr>calls := calls s @ [(cb_id cb, domain, data)]\<rparr>
      in case cb_raises cb domain data of
           None \<Rightarrow> s1
         | Some e \<Rightarrow> log_msg ERROR ''Error in global update callback: {}'' [LStr e] s1)"

text \<open>
  \<^verbatim>\<open>key in self._subscriptions\<close> followed by \<^verbatim>\<open>self._subscriptions[key]\<close>, for a key
  taken from a message: a list or a dict is unhashable, a string is looked up, anything else
  is not a key of the table.
\<close>

definition lookup_key :: "(string \<rightharpoonup> 'v) \<Rightarrow> json \<Rightarrow> py_exn + 'v option" where
  "lookup_key tbl key = (case key of
       JArr xs \<Rightarrow> Inl TypeError
     | JObj d \<Rightarrow> Inl TypeError
     | JStr k \<Rightarrow> Inr (tbl k)
     | _ \<Rightarrow> Inr None)"

text \<open>\<^verbatim>\<open>_handle_domain_update\<close>\<close>

definition handle_domain_update :: "client \<Rightarrow> json \<Rightarrow> json \<Rightarrow> py_exn + client" where
  "handle_domain_update s domain data =
     (case lookup_key (subscriptions s) domain of
        Inl e \<Rightarrow> Inl e
      | Inr found \<Rightarrow>
          (let s1 = (case found of
                       None \<Rightarrow> s
                     | Some cbs \<Rightarrow> foldl (call_domain_callback domain data) s cbs)
           in case global_update_callback s1 of
                None \<Rightarrow> Inr s1
              | Some g \<Rightarrow> Inr (call_global_callback domain data s1 g)))"

text \<open>The \<^verbatim>\<open>elif\<close> chain of \<^verbatim>\<open>_handle_message\<close> on the message type.\<close>

definition handle_special :: "client \<Rightarrow> dict \<Rightarrow> json \<Rightarrow> py_exn + client" where
  "handle_special s message message_type =
     (if message_type = JStr ''welcome'' then
        Inr (log_msg INFO ''Received welcome from ProxyHawk'' [] s)
      else if message_type = JStr ''domain_update'' then
        handle_domain_update s (dict_get message ''domain'' (JStr '''')) (dict_get message ''data'' (JObj []))
      else if message_type = JStr ''error'' then
        Inr (log_msg ERROR ''ProxyHawk error: {}''
               [LVal (dict_get message ''error'' (JStr ''Unknown error''))] s)
      else
        Inr (log_msg DEBUG ''Unhandled message type: {}'' [LVal message_type] s))"

text \<open>\<^verbatim>\<open>_handle_message\<close>\<close>

definition handle_message :: "client \<Rightarrow> dict \<Rightarrow> py_exn + client" where
  "handle_message s message =
     (let message_type = dict_get message ''type'' (JStr '''');
          message_id = dict_get message ''id'' (JStr '''')
      in if truthy message_id then
           (case lookup_key (message_handlers s) message_id of
              Inl e \<Rightarrow> Inl e
            | Inr (Some fut) \<Rightarrow>
                if \<not> done_future (futures s fut)
                then Inr (s\<lparr>futures := (futures s)(fut := Resolved message)\<rparr>)
                else Inr s
            | Inr None \<Rightarrow> handle_special s message message_type)
         else handle_special s message message_type)"

text \<open>
  One turn of the loop in \<^verbatim>\<open>_message_receiver\<close> on a decoded object: an exception of
  \<^verbatim>\<open>_handle_message\<close> is logged and the loop goes on.
\<close>

definition receive :: "client \<Rightarrow> dict \<Rightarrow> client" where
  "receive s message =
     (case handle_message s message of
        Inl e \<Rightarrow> log_msg ERROR ''Error handling message: {}'' [LExn e] s
      | Inr s1 \<Rightarrow> s1)"

text \<open>The messages the receiver task handles while a coroutine is suspended.\<close>

definition deliver :: "client \<Rightarrow> dict list \<Rightarrow> client" where
  "deliver s messages = foldl receive s messages"

subsection \<open>Parsing a result payload\<close>

text \<open>
  \<^verbatim>\<open>DNSResult(**dns)\<close> and \<^verbatim>\<open>HTTPResult(**http)\<close>: the argument must be a mapping whose
  keys are exactly the fields of the dataclass, none of which has a default.
\<close>

definition kwargs_ok :: "string list \<Rightarrow> dict \<Rightarrow> bool" where
  "kwargs_ok names d \<longleftrightarrow>
     list_all (\<lambda>k. k \<in> set names) (map fst d) \<and> list_all (\<lambda>n. n \<in> set (map fst d)) names"

definition make_dns_result :: "json \<Rightarrow> py_exn + dns_result" where
  "make_dns_result v = (case v of
       JObj d \<Rightarrow>
         if kwargs_ok [''query_time'', ''ip'', ''ttl'', ''record_type''] d
         then Inr \<lparr>dns_query_time = dict_get d ''query_time'' JNull,
                   dns_ip = dict_get d ''ip'' JNull,
                   dns_ttl = dict_get d ''ttl'' JNull,
                   dns_record_type = dict_get d ''record_type'' JNull\<rparr>
         else Inl TypeError
     | _ \<Rightarrow> Inl TypeError)"

definition make_http_result :: "json \<Rightarrow> py_exn + http_result" where
  "make_http_result v = (case v of
       JObj d \<Rightarrow>
         if kwargs_ok [''request_time'', ''status_code'', ''response_time_ms'', ''headers'',
                       ''server_header'', ''content_hash'', ''content_size'', ''remote_addr''] d
         then Inr \<lparr>http_request_time = dict_get d ''request_time'' JNull,
                   http_status_code = dict_get d ''status_code'' JNull,
                   http_response_time_ms = dict_get d ''response_time_ms'' JNull,
                   http_headers = dict_get d ''headers'' JNull,
                   http_server_header = dict_get d ''server_header'' JNull,
                   http_content_hash = dict_get d ''content_hash'' JNull,
                   http_content_size = dict_get d ''content_size'' JNull,
                   http_remote_addr = dict_get d ''remote_addr'' JNull\<rparr>
         else Inl TypeError
     | _ \<Rightarrow> Inl TypeError)"

text \<open>The body of the loop over \<^verbatim>\<open>region_results\<close> in \<^verbatim>\<open>_parse_geo_test_result\<close>.\<close>

definition parse_region :: "json \<Rightarrow> py_exn + region_result" where
  "parse_region region_data =
     bindE (attr_get region_data ''dns_results'' (JArr [])) (\<lambda>dl.
     bindE (py_iter dl) (\<lambda>dns_items.
     bindE (mapE make_dns_result dns_items) (\<lambda>dns_results.
     bindE (attr_get region_data ''http_results'' (JArr [])) (\<lambda>hl.
     bindE (py_iter hl) (\<lambda>http_items.
     bindE (mapE make_http_result http_items) (\<lambda>http_results.
     bindE (subscript region_data ''region'') (\<lambda>region.
     bindE (subscript region_data ''proxy_used'') (\<lambda>proxy_used.
     bindE (subscript region_data ''response_time'') (\<lambda>response_time.
     bindE (subscript region_data ''success'') (\<lambda>success.
     bindE (attr_get region_data ''error'' (JStr [])) (\<lambda>err.
       Inr \<lparr>rr_region = region, rr_proxy_used = proxy_used,
            rr_dns_results = dns_results, rr_http_results = http_results,
            rr_response_time_ms = response_time, rr_success = success,
            rr_error = err\<rparr>)))))))))))"

text \<open>\<^verbatim>\<open>x.items()\<close>\<close>

definition py_items :: "json \<Rightarrow> py_exn + (string \<times> json) list" where
  "py_items v = (case v of JObj d \<Rightarrow> Inr d | _ \<Rightarrow> Inl AttributeError)"

text \<open>\<^verbatim>\<open>_parse_geo_test_result\<close>\<close>

definition parse_geo_test_result :: "json \<Rightarrow> py_exn + geo_test_result" where
  "parse_geo_test_result data =
     bindE (attr_get data ''region_results'' (JObj [])) (\<lambda>rrs.
     bindE (py_items rrs) (\<lambda>items.
     bindE (mapE (\<lambda>item. bindE (parse_region (snd item)) (\<lambda>r. Inr (fst item, r))) items)
       (\<lambda>region_results.
     bindE (attr_get data ''summary'' (JObj [])) (\<lambda>summary_data.
     bindE (attr_get summary_data ''unique_ips'' (JArr [])) (\<lambda>unique_ips.
     bindE (attr_get summary_data ''unique_servers'' (JArr [])) (\<lambda>unique_servers.
     bindE (attr_get summary_data ''response_time_diff'' (JInt 0)) (\<lambda>response_time_diff.
     bindE (attr_get summary_data ''content_variations'' (JObj [])) (\<lambda>content_variations.
     bindE (attr_get summary_data ''geographic_spread'' (JBool False)) (\<lambda>geographic_spread.
     bindE (subscript data ''domain'') (\<lambda>domain.
     bindE (subscript data ''tested_at'') (\<lambda>tested_at.
     bindE (subscript data ''has_geographic_differences'') (\<lambda>has_geographic_differences.
     bindE (subscript data ''is_round_robin'') (\<lambda>is_round_robin.
     bindE (subscript data ''confidence'') (\<lambda>confidence.
       Inr \<lparr>gtr_domain = domain, gtr_tested_at = tested_at,
            gtr_has_geographic_differences = has_geographic_differences,
            gtr_is_round_robin = is_round_robin, gtr_confidence = confidence,
            gtr_region_results = region_results,
            gtr_summary = \<lparr>ts_unique_ips = unique_ips, ts_unique_servers = unique_servers,
                            ts_response_time_diff_ms = response_time_diff,
                            ts_content_variations = content_variations,
                            ts_geographic_spread = geographic_spread\<rparr>\<rparr>))))))))))))))"

text \<open>
  \<^verbatim>\<open>json.loads(response["data"]) if isinstance(response["data"], str) else response["data"]\<close>.
  \<open>loads\<close> stands for \<^verbatim>\<open>json.loads\<close>, \<open>None\<close> being a \<^verbatim>\<open>JSONDecodeError\<close>.
\<close>

definition decode_data :: "(string \<Rightarrow> json option) \<Rightarrow> dict \<Rightarrow> py_exn + json" where
  "decode_data loads response =
     bindE (dict_item response ''data'') (\<lambda>d.
       case d of
         JStr t \<Rightarrow> (case loads t of None \<Rightarrow> Inl JSONDecodeError | Some v \<Rightarrow> Inr v)
       | _ \<Rightarrow> Inr d)"

subsection \<open>Request operations\<close>

text \<open>The local variables a suspended request coroutine still needs when it wakes up.\<close>

record request_frame =
  fr_id :: string
  fr_future :: nat

record domain_frame = request_frame +
  fr_domain :: string

record batch_frame = request_frame +
  fr_domains :: "string list"
  fr_results :: "geo_test_result list"

text \<open>What the part of a coroutine before its first wait comes to: it returned, or it waits.\<close>

datatype ('r, 'f) step = Return 'r | Await 'f

text \<open>
  \<^verbatim>\<open>await asyncio.wait_for(future, timeout=...)\<close> at the moment the coroutine wakes up. A
  pending future means the timeout fired: \<^verbatim>\<open>wait_for\<close> cancels the future and raises.
\<close>

definition wait_for :: "client \<Rightarrow> nat \<Rightarrow> (py_exn + dict) \<times> client" where
  "wait_for s fut = (case futures s fut of
       Pending \<Rightarrow> (Inl AsyncioTimeoutError, s\<lparr>futures := (futures s)(fut := Cancelled)\<rparr>)
     | Cancelled \<Rightarrow> (Inl CancelledError, s)
     | Resolved response \<Rightarrow> (Inr response, s))"

text \<open>\<^verbatim>\<open>regions or self.config.regions\<close>\<close>

definition regions_or :: "string list option \<Rightarrow> string list \<Rightarrow> string list" where
  "regions_or rgns dflt = (case rgns of None \<Rightarrow> dflt | Some xs \<Rightarrow> if xs = [] then dflt else xs)"

definition not_connected :: py_exn where
  "not_connected = RuntimeError ''Not connected to ProxyHawk'' []"

subsubsection \<open>test_domain\<close>

definition test_request :: "string \<Rightarrow> string \<Rightarrow> string list \<Rightarrow> test_mode \<Rightarrow> pyfloat \<Rightarrow> json" where
  "test_request message_id domain test_regions mode now =
     JObj [(''type'', JStr ''test''),
           (''id'', JStr message_id),
           (''domain'', JStr domain),
           (''data'', JObj [(''domain'', JStr domain),
                            (''regions'', JArr (map JStr test_regions)),
                            (''mode'', JStr (test_mode_value mode))]),
           (''timestamp'', JFloat now)]"

text \<open>\<^verbatim>\<open>test_domain\<close> up to its wait; \<open>now\<close> is the value of \<^verbatim>\<open>time.time()\<close> in the request.\<close>

definition test_domain_start ::
  "client \<Rightarrow> string \<Rightarrow> string list option \<Rightarrow> int \<Rightarrow> pyfloat \<Rightarrow> (py_exn + domain_frame) \<times> client" where
  "test_domain_start s domain rgns ms now =
     (if \<not> connected s then (Inl not_connected, s)
      else case generate_message_id s ms of (message_id, s1) \<Rightarrow>
        (let test_regions = regions_or rgns (regions (config s1));
             request = test_request message_id domain test_regions (test_mode (config s1)) now
         in case register_handler s1 message_id of (fut, s2) \<Rightarrow>
              (case ws_send s2 request of
                 Inl e \<Rightarrow> (Inl e, pop_handler message_id s2)
               | Inr s3 \<Rightarrow>
                   (Inr \<lparr>fr_id = message_id, fr_future = fut, fr_domain = domain\<rparr>,
                    log_msg DEBUG ''Sent test request for domain: {}'' [LStr domain] s3))))"

text \<open>\<^verbatim>\<open>test_domain\<close> from its wait on, with the \<^verbatim>\<open>except\<close> and \<^verbatim>\<open>finally\<close> clauses.\<close>

definition test_domain_resume ::
  "(string \<Rightarrow> json option) \<Rightarrow> client \<Rightarrow> domain_frame \<Rightarrow> (py_exn + geo_test_result) \<times> client" where
  "test_domain_resume loads s fr =
     (case wait_for s (fr_future fr) of
        (Inl e, s1) \<Rightarrow>
          (Inl (if e = AsyncioTimeoutError
                then TimeoutError ''Test timeout for domain: {}'' [JStr (fr_domain fr)] else e),
           pop_handler (fr_id fr) s1)
      | (Inr response, s1) \<Rightarrow>
          (if truthy (dict_get response ''error'' JNull)
           then Inl (RuntimeError ''ProxyHawk error: {}'' [dict_get response ''error'' JNull])
           else bindE (decode_data loads response) parse_geo_test_result,
           pop_handler (fr_id fr) s1))"

text \<open>
  The whole call: \<open>inbound\<close> are the messages the receiver handles between the send and the
  moment the coroutine wakes up.
\<close>

definition test_domain ::
  "(string \<Rightarrow> json option) \<Rightarrow> client \<Rightarrow> string \<Rightarrow> string list option \<Rightarrow> int \<Rightarrow> pyfloat \<Rightarrow>
     dict list \<Rightarrow> (py_exn + geo_test_result) \<times> client" where
  "test_domain loads s domain rgns ms now inbound =
     (case test_domain_start s domain rgns ms now of
        (Inl e, s1) \<Rightarrow> (Inl e, s1)
      | (Inr fr, s1) \<Rightarrow> test_domain_resume loads (deliver s1 inbound) fr)"

subsubsection \<open>batch_test\<close>

definition batch_request :: "string \<Rightarrow> string list \<Rightarrow> string list \<Rightarrow> test_mode \<Rightarrow> pyfloat \<Rightarrow> json" where
  "batch_request message_id domains test_regions mode now =
     JObj [(''type'', JStr ''batch_test''),
           (''id'', JStr message_id),
           (''data'', JObj [(''domains'', JArr (map JStr domains)),
                            (''regions'', JArr (map JStr test_regions)),
                            (''mode'', JStr (test_mode_value mode))]),
           (''timestamp'', JFloat now)]"

text \<open>\<^verbatim>\<open>batch_test\<close> up to the \<^verbatim>\<open>while\<close> loop.\<close>

definition batch_test_start ::
  "client \<Rightarrow> string list \<Rightarrow> string list option \<Rightarrow> int \<Rightarrow> pyfloat \<Rightarrow>
     (py_exn + (geo_test_result list, batch_frame) step) \<times> client" where
  "batch_test_start s domains rgns ms now =
     (if \<not> connected s then (Inl not_connected, s)
      else if domains = [] then (Inr (Return []), s)
      else case generate_message_id s ms of (message_id, s1) \<Rightarrow>
        (let test_regions = regions_or rgns (regions (config s1));
             request = batch_request message_id domains test_regions (test_mode (config s1)) now
         in case register_handler s1 message_id of (fut, s2) \<Rightarrow>
              (case ws_send s2 request of
                 Inl e \<Rightarrow> (Inl e, pop_handler message_id s2)
               | Inr s3 \<Rightarrow>
                   (Inr (Await \<lparr>fr_id = message_id, fr_future = fut,
                                fr_domains = domains, fr_results = []\<rparr>),
                    log_msg INFO ''Sent batch test request for {} domains''
                      [LVal (JInt (int (length domains)))] s3))))"

text \<open>What one pass through the loop body leaves: the loop is left, or it goes round again.\<close>

datatype batch_next = Break "geo_test_result list" | Continue batch_frame

text \<open>The loop body of \<^verbatim>\<open>batch_test\<close> after the wait, on the response it got.\<close>

definition batch_body ::
  "(string \<Rightarrow> json option) \<Rightarrow> client \<Rightarrow> batch_frame \<Rightarrow> dict \<Rightarrow> (py_exn + batch_next) \<times> client" where
  "batch_body loads s fr response =
     (if truthy (dict_get response ''error'' JNull) then
        (Inr (Break (fr_results fr)),
         log_msg ERROR ''Batch test error: {}'' [LVal (dict_get response ''error'' JNull)] s)
      else case dict_item response ''type'' of
        Inl e \<Rightarrow> (Inl e, s)
      | Inr ty \<Rightarrow>
          if ty = JStr ''batch_result'' then
            (case bindE (decode_data loads response) (\<lambda>batch_data.
                  bindE (py_iter batch_data) (mapE parse_geo_test_result)) of
               Inl e \<Rightarrow> (Inl e, s)
             | Inr rs \<Rightarrow> (Inr (Break (fr_results fr @ rs)), s))
          else if ty = JStr ''batch_partial'' then
            (case bindE (decode_data loads response) (\<lambda>partial_data.
                  bindE (attr_get partial_data ''results'' (JArr [])) (\<lambda>l.
                  bindE (py_iter l) (mapE parse_geo_test_result))) of
               Inl e \<Rightarrow> (Inl e, s)
             | Inr rs \<Rightarrow>
                 (let results = fr_results fr @ rs
                  in if length results < length (fr_domains fr) then
                       (case register_handler s (fr_id fr) of (fut, s1) \<Rightarrow>
                          (Inr (Continue (fr\<lparr>fr_results := results, fr_future := fut\<rparr>)), s1))
                     else (Inr (Continue (fr\<lparr>fr_results := results\<rparr>)), s)))
          else (Inr (Continue fr), s))"

text \<open>
  One turn of \<^verbatim>\<open>while len(results) < len(domains)\<close>. \<open>rounds\<close> are the lists of
  messages the receiver handles during the successive suspensions of the coroutine. A
  wait on a future that is already done gets the result of that future again, whatever the
  receiver handles meanwhile, so it is given no round. The
  result is \<open>Inl\<close> when the loop is over (with what the \<^verbatim>\<open>try\<close> block comes to) and
  \<open>Inr\<close> with the next loop state otherwise.
\<close>

definition batch_turn ::
  "(string \<Rightarrow> json option) \<Rightarrow> client \<times> batch_frame \<times> dict list list \<Rightarrow>
     ((py_exn + geo_test_result list) \<times> client) + (client \<times> batch_frame \<times> dict list list)" where
  "batch_turn loads x = (case x of (s, fr, rounds) \<Rightarrow>
     if length (fr_results fr) < length (fr_domains fr) then
       (let suspended = \<not> done_future (futures s (fr_future fr));
            s1 = (if suspended then deliver s (case rounds of [] \<Rightarrow> [] | r # _ \<Rightarrow> r) else s);
            rounds1 = (if suspended then tl rounds else rounds)
        in case wait_for s1 (fr_future fr) of
             (Inl e, s2) \<Rightarrow>
               Inl (Inl (if e = AsyncioTimeoutError
                         then TimeoutError ''Batch test timeout after receiving {}/{} results''
                                [JInt (int (length (fr_results fr))),
                                 JInt (int (length (fr_domains fr)))]
                         else e), s2)
           | (Inr response, s2) \<Rightarrow>
               (case batch_body loads s2 fr response of
                  (Inl e, s3) \<Rightarrow> Inl (Inl e, s3)
                | (Inr (Break rs), s3) \<Rightarrow> Inl (Inr rs, s3)
                | (Inr (Continue fr1), s3) \<Rightarrow> Inr (s3, fr1, rounds1)))
     else Inl (Inr (fr_results fr), s))"

text \<open>The loop. It need not come to an end, so its value is an option.\<close>

partial_function (option) batch_loop ::
  "(string \<Rightarrow> json option) \<Rightarrow> client \<times> batch_frame \<times> dict list list \<Rightarrow>
     ((py_exn + geo_test_result list) \<times> client) option" where
  "batch_loop loads x = (case batch_turn loads x of Inl r \<Rightarrow> Some r | Inr x1 \<Rightarrow> batch_loop loads x1)"

text \<open>\<^verbatim>\<open>batch_test\<close>, with the \<^verbatim>\<open>finally\<close> clause after the loop.\<close>

definition batch_test ::
  "(string \<Rightarrow> json option) \<Rightarrow> client \<Rightarrow> string list \<Rightarrow> string list option \<Rightarrow> int \<Rightarrow> pyfloat \<Rightarrow>
     dict list list \<Rightarrow> ((py_exn + geo_test_result list) \<times> client) option" where
  "batch_test loads s domains rgns ms now rounds =
     (case batch_test_start s domains rgns ms now of
        (Inl e, s1) \<Rightarrow> Some (Inl e, s1)
      | (Inr (Return r), s1) \<Rightarrow> Some (Inr r, s1)
      | (Inr (Await fr), s1) \<Rightarrow>
          (case batch_loop loads (s1, fr, rounds) of
             None \<Rightarrow> None
           | Some (res, s2) \<Rightarrow> Some (res, pop_handler (fr_id fr) s2)))"

subsubsection \<open>subscribe\<close>

definition subscribe_request :: "string \<Rightarrow> string \<Rightarrow> pyfloat \<Rightarrow> json" where
  "subscribe_request message_id domain now =
     JObj [(''type'', JStr ''subscribe''),
           (''id'', JStr message_id),
           (''domain'', JStr domain),
           (''timestamp'', JFloat now)]"

text \<open>\<^verbatim>\<open>if callback: ... self._subscriptions[domain].append(callback)\<close>\<close>

definition add_subscription :: "client \<Rightarrow> string \<Rightarrow> callback option \<Rightarrow> client" where
  "add_subscription s domain callback = (case callback of
       None \<Rightarrow> s
     | Some cb \<Rightarrow>
         s\<lparr>subscriptions := (subscriptions s)
              (domain \<mapsto> (case subscriptions s domain of None \<Rightarrow> [] | Some cbs \<Rightarrow> cbs) @ [cb])\<rparr>)"

text \<open>
  \<^verbatim>\<open>subscribe\<close> after the connection check and before the \<^verbatim>\<open>try\<close>: the id, the request,
  the listener, the completion handle. Nothing has been sent yet.
\<close>

definition subscribe_register ::
  "client \<Rightarrow> string \<Rightarrow> callback option \<Rightarrow> int \<Rightarrow> pyfloat \<Rightarrow> (domain_frame \<times> json) \<times> client" where
  "subscribe_register s domain callback ms now =
     (case generate_message_id s ms of (message_id, s1) \<Rightarrow>
        (let request = subscribe_request message_id domain now;
             s2 = add_subscription s1 domain callback
         in case register_handler s2 message_id of (fut, s3) \<Rightarrow>
              ((\<lparr>fr_id = message_id, fr_future = fut, fr_domain = domain\<rparr>, request), s3)))"

definition subscribe_start ::
  "client \<Rightarrow> string \<Rightarrow> callback option \<Rightarrow> int \<Rightarrow> pyfloat \<Rightarrow> (py_exn + domain_frame) \<times> client" where
  "subscribe_start s domain callback ms now =
     (if \<not> connected s then (Inl not_connected, s)
      else case subscribe_register s domain callback ms now of ((fr, request), s1) \<Rightarrow>
        (case ws_send s1 request of
           Inl e \<Rightarrow> (Inl e, pop_handler (fr_id fr) s1)
         | Inr s2 \<Rightarrow> (Inr fr, s2)))"

definition subscribe_resume :: "client \<Rightarrow> domain_frame \<Rightarrow> (py_exn + unit) \<times> client" where
  "subscribe_resume s fr =
     (case wait_for s (fr_future fr) of
        (Inl e, s1) \<Rightarrow> (Inl e, pop_handler (fr_id fr) s1)
      | (Inr response, s1) \<Rightarrow>
          if truthy (dict_get response ''error'' JNull)
          then (Inl (RuntimeError ''Subscription error: {}'' [dict_get response ''error'' JNull]),
                pop_handler (fr_id fr) s1)
          else (Inr (),
                pop_handler (fr_id fr)
                  (log_msg INFO ''Subscribed to updates for domain: {}'' [LStr (fr_domain fr)] s1)))"

definition subscribe ::
  "client \<Rightarrow> string \<Rightarrow> callback option \<Rightarrow> int \<Rightarrow> pyfloat \<Rightarrow> dict list \<Rightarrow> (py_exn + unit) \<times> client" where
  "subscribe s domain callback ms now inbound =
     (case subscribe_start s domain callback ms now of
        (Inl e, s1) \<Rightarrow> (Inl e, s1)
      | (Inr fr, s1) \<Rightarrow> subscribe_resume (deliver s1 inbound) fr)"

subsubsection \<open>unsubscribe\<close>

definition unsubscribe_request :: "string \<Rightarrow> string \<Rightarrow> pyfloat \<Rightarrow> json" where
  "unsubscribe_request message_id domain now =
     JObj [(''type'', JStr ''unsubscribe''),
           (''id'', JStr message_id),
           (''domain'', JStr domain),
           (''timestamp'', JFloat now)]"

definition unsubscribe_start ::
  "client \<Rightarrow> string \<Rightarrow> int \<Rightarrow> pyfloat \<Rightarrow> (py_exn + (unit, domain_frame) step) \<times> client" where
  "unsubscribe_start s domain ms now =
     (if \<not> connected s then (Inr (Return ()), s)
      else case generate_message_id s ms of (message_id, s1) \<Rightarrow>
        (let request = unsubscribe_request message_id domain now
         in case register_handler s1 message_id of (fut, s2) \<Rightarrow>
              (case ws_send s2 request of
                 Inl e \<Rightarrow> (Inl e, pop_handler message_id s2)
               | Inr s3 \<Rightarrow>
                   (Inr (Await \<lparr>fr_id = message_id, fr_future = fut, fr_domain = domain\<rparr>), s3))))"

text \<open>
  \<^verbatim>\<open>unsubscribe\<close> from its wait on. The removal of the local listeners is the statement
  after the wait inside the \<^verbatim>\<open>try\<close>; the handler for the timeout logs a warning.
\<close>

definition unsubscribe_resume :: "client \<Rightarrow> domain_frame \<Rightarrow> (py_exn + unit) \<times> client" where
  "unsubscribe_resume s fr =
     (case wait_for s (fr_future fr) of
        (Inl e, s1) \<Rightarrow>
          if e = AsyncioTimeoutError
          then (Inr (),
                pop_handler (fr_id fr)
                  (log_msg WARNING ''Unsubscribe timeout for domain: {}'' [LStr (fr_domain fr)] s1))
          else (Inl e, pop_handler (fr_id fr) s1)
      | (Inr response, s1) \<Rightarrow>
          (Inr (),
           pop_handler (fr_id fr)
             (log_msg INFO ''Unsubscribed from domain: {}'' [LStr (fr_domain fr)]
                (s1\<lparr>subscriptions := (subscriptions s1)(fr_domain fr := None)\<rparr>))))"

definition unsubscribe ::
  "client \<Rightarrow> string \<Rightarrow> int \<Rightarrow> pyfloat \<Rightarrow> dict list \<Rightarrow> (py_exn + unit) \<times> client" where
  "unsubscribe s domain ms now inbound =
     (case unsubscribe_start s domain ms now of
        (Inl e, s1) \<Rightarrow> (Inl e, s1)
      | (Inr (Return r), s1) \<Rightarrow> (Inr r, s1)
      | (Inr (Await fr), s1) \<Rightarrow> unsubscribe_resume (deliver s1 inbound) fr)"

subsubsection \<open>get_regions\<close>

definition get_regions_request :: "string \<Rightarrow> pyfloat \<Rightarrow> json" where
  "get_regions_request message_id now =
     JObj [(''type'', JStr ''get_regions''),
           (''id'', JStr message_id),
           (''timestamp'', JFloat now)]"

definition get_regions_start ::
  "client \<Rightarrow> int \<Rightarrow> pyfloat \<Rightarrow> (py_exn + request_frame) \<times> client" where
  "get_regions_start s ms now =
     (if \<not> connected s then (Inl not_connected, s)
      else case generate_message_id s ms of (message_id, s1) \<Rightarrow>
        (let request = get_regions_request message_id now
         in case register_handler s1 message_id of (fut, s2) \<Rightarrow>
              (case ws_send s2 request of
                 Inl e \<Rightarrow> (Inl e, pop_handler message_id s2)
               | Inr s3 \<Rightarrow> (Inr \<lparr>fr_id = message_id, fr_future = fut\<rparr>, s3))))"

definition get_regions_resume ::
  "(string \<Rightarrow> json option) \<Rightarrow> client \<Rightarrow> request_frame \<Rightarrow> (py_exn + json) \<times> client" where
  "get_regions_resume loads s fr =
     (case wait_for s (fr_future fr) of
        (Inl e, s1) \<Rightarrow> (Inl e, pop_handler (fr_id fr) s1)
      | (Inr response, s1) \<Rightarrow> (decode_data loads response, pop_handler (fr_id fr) s1))"

definition get_regions ::
  "(string \<Rightarrow> json option) \<Rightarrow> client \<Rightarrow> int \<Rightarrow> pyfloat \<Rightarrow> dict list \<Rightarrow> (py_exn + json) \<times> client" where
  "get_regions loads s ms now inbound =
     (case get_regions_start s ms now of
        (Inl e, s1) \<Rightarrow> (Inl e, s1)
      | (Inr fr, s1) \<Rightarrow> get_regions_resume loads (deliver s1 inbound) fr)"

subsection \<open>Construction, example clients and envelopes\<close>

text \<open>\<^verbatim>\<open>ProxyHawkConfig()\<close> with its defaults, after \<^verbatim>\<open>__post_init__\<close>.\<close>

definition default_config :: proxyhawk_config where
  "default_config =
     \<lparr>url = ''ws://localhost:8888/ws'',
      regions = [''us-west'', ''us-east'', ''eu-west''],
      test_mode = BASIC,
      timeout = (30, 0),
      reconnect_delay = (5, 0),
      max_retries = 3\<rparr>"

text \<open>\<^verbatim>\<open>ProxyHawkClient.__init__\<close>\<close>

definition init_client :: "proxyhawk_config \<Rightarrow> client" where
  "init_client cfg =
     \<lparr>config = cfg, ws = None, connected = False,
      message_handlers = Map.empty, subscriptions = Map.empty,
      message_counter = 0, global_update_callback = None,
      futures = (\<lambda>a. Pending), next_future = 0, logger = [], calls = []\<rparr>"

text \<open>A client whose connection is up, for the examples below.\<close>

definition connected_client :: client where
  "connected_client =
     (init_client default_config)\<lparr>ws := Some \<lparr>closed = False, sent = []\<rparr>, connected := True\<rparr>"

text \<open>A listener that returns and a listener that raises, each with the name \<open>n\<close>.\<close>

definition quiet_cb :: "nat \<Rightarrow> callback" where
  "quiet_cb n = \<lparr>cb_id = n, cb_raises = (\<lambda>domain data. None)\<rparr>"

definition faulty_cb :: "nat \<Rightarrow> callback" where
  "faulty_cb n = \<lparr>cb_id = n, cb_raises = (\<lambda>domain data. Some ''boom'')\<rparr>"

text \<open>The listeners of a domain in insertion order, and the global listener if there is one.\<close>

definition listeners_of :: "client \<Rightarrow> string \<Rightarrow> callback list" where
  "listeners_of s d = (case subscriptions s d of None \<Rightarrow> [] | Some cbs \<Rightarrow> cbs)"

definition global_listener :: "client \<Rightarrow> callback list" where
  "global_listener s = (case global_update_callback s of None \<Rightarrow> [] | Some g \<Rightarrow> [g])"

text \<open>The listener calls a step added to the trace: those of \<open>s'\<close> that \<open>s\<close> did not have.\<close>

definition new_calls :: "client \<Rightarrow> client \<Rightarrow> (nat \<times> json \<times> json) list" where
  "new_calls s s' = drop (length (calls s)) (calls s')"

text \<open>
  Envelopes of the server in a batch flow. \<open>is_partial mid p gs\<close>: \<open>p\<close> answers request
  \<open>mid\<close>, carries no error, has type \<^verbatim>\<open>batch_partial\<close>, and the list under \<^verbatim>\<open>results\<close>
  in its data parses to \<open>gs\<close>. \<open>is_final\<close> is the same for \<^verbatim>\<open>batch_result\<close>, whose data
  is the list itself.
\<close>

definition is_partial :: "string \<Rightarrow> dict \<Rightarrow> geo_test_result list \<Rightarrow> bool" where
  "is_partial mid p gs \<longleftrightarrow>
     map_of p ''id'' = Some (JStr mid) \<and>
     \<not> truthy (dict_get p ''error'' JNull) \<and>
     map_of p ''type'' = Some (JStr ''batch_partial'') \<and>
     (case map_of p ''data'' of
        Some (JObj d) \<Rightarrow>
          (case map_of d ''results'' of
             Some (JArr rs) \<Rightarrow> mapE parse_geo_test_result rs = Inr gs
           | _ \<Rightarrow> False)
      | _ \<Rightarrow> False)"


text \<open>A smallest payload that \<^verbatim>\<open>_parse_geo_test_result\<close> accepts, and what it parses to.\<close>

definition result_json :: "string \<Rightarrow> json" where
  "result_json d =
     JObj [(''domain'', JStr d), (''tested_at'', JStr ''2024-01-01T00:00:00Z''),
           (''has_geographic_differences'', JBool False), (''is_round_robin'', JBool False),
           (''confidence'', JInt 1)]"

definition result_of :: "string \<Rightarrow> geo_test_result" where
  "result_of d =
     \<lparr>gtr_domain = JStr d, gtr_tested_at = JStr ''2024-01-01T00:00:00Z'',
      gtr_has_geographic_differences = JBool False, gtr_is_round_robin = JBool False,
      gtr_confidence = JInt 1, gtr_region_results = [],
      gtr_summary = \<lparr>ts_unique_ips = JArr [], ts_unique_servers = JArr [],
                      ts_response_time_diff_ms = JInt 0, ts_content_variations = JObj [],
                      ts_geographic_spread = JBool False\<rparr>\<rparr>"

text \<open>
  A connected client with one listener for \<^verbatim>\<open>example.com\<close> and one request outstanding
  under the id \<^verbatim>\<open>req-1\<close>; a push for that domain that carries the same id; the client
  after the receiver has handled a first answer to \<^verbatim>\<open>req-1\<close>.
\<close>

definition waiting_client :: client where
  "waiting_client =
     snd (register_handler (add_subscription connected_client ''example.com'' (Some (quiet_cb 1)))
            ''req-1'')"

definition update_msg :: dict where
  "update_msg =
     [(''type'', JStr ''domain_update''), (''id'', JStr ''req-1''),
      (''domain'', JStr ''example.com''), (''data'', JObj [])]"

definition ack_msg :: dict where
  "ack_msg = [(''type'', JStr ''subscribed''), (''id'', JStr ''req-1'')]"

definition resolved_client :: client where
  "resolved_client = receive waiting_client ack_msg"

text \<open>A connected client with one listener for \<^verbatim>\<open>example.com\<close> and nothing outstanding.\<close>

definition subscribed_client :: client where
  "subscribed_client = add_subscription connected_client ''example.com'' (Some (quiet_cb 1))"

text \<open>Replies of the server to the request \<open>mid\<close>: a plain acknowledgment, and an error.\<close>

definition ack_reply :: "string \<Rightarrow> dict" where
  "ack_reply mid = [(''type'', JStr ''ack''), (''id'', JStr mid), (''data'', JArr [])]"

definition error_reply :: "string \<Rightarrow> dict" where
  "error_reply mid =
     [(''type'', JStr ''error''), (''id'', JStr mid), (''data'', JArr [JStr ''us-west'']),
      (''error'', JStr ''region unavailable'')]"

text \<open>
  The batch scenario with three domains: a partial envelope with the results for
  \<^verbatim>\<open>a.com\<close> and \<^verbatim>\<open>b.com\<close>, then the final envelope with the result for \<^verbatim>\<open>c.com\<close>.
\<close>

definition partial_ab :: dict where
  "partial_ab =
     [(''type'', JStr ''batch_partial''), (''id'', JStr ''python_client_0_1''),
      (''data'', JObj [(''results'', JArr [result_json ''a.com'', result_json ''b.com''])])]"


section \<open>Properties\<close>

subsection \<open>Evaluation and frame lemmas\<close>

lemma bindE_simps [simp]:
  "bindE (Inl e) f = Inl e"
  "bindE (Inr a) f = f a"
  by (simp_all add: bindE_def)

lemma str_nat_digit: "n < 10 \<Longrightarrow> str_nat n = [digit n]"
  by (simp add: str_nat.simps)

lemma generate_message_id_0_1: "fst (generate_message_id connected_client 0) = ''python_client_0_1''"
  by (simp add: generate_message_id_def connected_client_def init_client_def str_int_def str_nat.simps digit_def)

lemma parse_result_json: "parse_geo_test_result (result_json d) = Inr (result_of d)"
  by (simp add: parse_geo_test_result_def result_json_def result_of_def attr_get_def
      dict_get_def py_items_def subscript_def dict_item_def)

lemma lookup_key_JStr: "lookup_key tbl (JStr k) = Inr (tbl k)"
  by (simp add: lookup_key_def)

lemma handle_message_pending:
  assumes "map_of message ''id'' = Some (JStr i)" and "i \<noteq> []"
    and "message_handlers s i = Some fut" and "futures s fut = Pending"
  shows "handle_message s message = Inr (s\<lparr>futures := (futures s)(fut := Resolved message)\<rparr>)"
  using assms by (simp add: handle_message_def dict_get_def lookup_key_def)


lemma foldl_call_domain_calls:
  "calls (foldl (call_domain_callback d data) s cbs) = calls s @ map (\<lambda>cb. (cb_id cb, d, data)) cbs"
  by (induction cbs arbitrary: s)
     (auto simp: call_domain_callback_def log_msg_def Let_def split: option.splits)

lemma foldl_call_domain_logger:
  "logger (foldl (call_domain_callback d data) s cbs) = logger s @
     map (\<lambda>cb. (ERROR, ''Error in domain callback for {}: {}'',
                 [LVal d, LStr (the (cb_raises cb d data))]))
       (filter (\<lambda>cb. cb_raises cb d data \<noteq> None) cbs)"
  by (induction cbs arbitrary: s)
     (auto simp: call_domain_callback_def log_msg_def Let_def split: option.splits)

lemma foldl_call_domain_frame:
  "global_update_callback (foldl (call_domain_callback d data) s cbs) = global_update_callback s"
  "subscriptions (foldl (call_domain_callback d data) s cbs) = subscriptions s"
  by (induction cbs arbitrary: s)
     (auto simp: call_domain_callback_def log_msg_def Let_def split: option.splits)

lemma handle_domain_update_JStr:
  "\<exists>s'. handle_domain_update s (JStr d) data = Inr s' \<and>
     subscriptions s' = subscriptions s \<and>
     calls s' = calls s @ map (\<lambda>cb. (cb_id cb, JStr d, data)) (listeners_of s d @ global_listener s) \<and>
     logger s' = logger s @
       map (\<lambda>cb. (ERROR, ''Error in domain callback for {}: {}'',
                   [LVal (JStr d), LStr (the (cb_raises cb (JStr d) data))]))
         (filter (\<lambda>cb. cb_raises cb (JStr d) data \<noteq> None) (listeners_of s d)) @
       map (\<lambda>cb. (ERROR, ''Error in global update callback: {}'',
                   [LStr (the (cb_raises cb (JStr d) data))]))
         (filter (\<lambda>cb. cb_raises cb (JStr d) data \<noteq> None) (global_listener s))"
  by (auto simp: handle_domain_update_def lookup_key_def listeners_of_def global_listener_def
      foldl_call_domain_calls foldl_call_domain_logger foldl_call_domain_frame
      call_global_callback_def log_msg_def Let_def split: option.splits)

lemma handle_domain_update_subscriptions:
  "handle_domain_update s domain data = Inr s' \<Longrightarrow> subscriptions s' = subscriptions s"
  by (auto simp: handle_domain_update_def lookup_key_def foldl_call_domain_frame
      call_global_callback_def log_msg_def Let_def split: option.splits json.splits sum.splits)

lemma handle_message_subscriptions:
  "handle_message s m = Inr s' \<Longrightarrow> subscriptions s' = subscriptions s"
  by (auto simp: handle_message_def handle_special_def lookup_key_def log_msg_def Let_def
      dest: handle_domain_update_subscriptions split: if_splits option.splits json.splits sum.splits)

lemma receive_subscriptions: "subscriptions (receive s m) = subscriptions s"
  by (auto simp: receive_def log_msg_def dest: handle_message_subscriptions split: sum.splits)

lemma deliver_subscriptions: "subscriptions (deliver s ms) = subscriptions s"
  unfolding deliver_def by (induction ms arbitrary: s) (simp_all add: receive_subscriptions)

lemma listeners_of_add_subscription:
  "listeners_of (add_subscription s d (Some cb)) d = listeners_of s d @ [cb]"
  by (simp add: listeners_of_def add_subscription_def split: option.splits)

lemma dispatch_invokes:
  assumes "cb \<in> set (listeners_of s d)"
  shows "\<exists>s'. handle_domain_update s (JStr d) data = Inr s' \<and>
           (cb_id cb, JStr d, data) \<in> set (new_calls s s')"
proof -
  obtain s' where h: "handle_domain_update s (JStr d) data = Inr s'"
    and c: "calls s' = calls s @ map (\<lambda>cb. (cb_id cb, JStr d, data)) (listeners_of s d @ global_listener s)"
    using handle_domain_update_JStr[of s d data] by blast
  from c assms have "(cb_id cb, JStr d, data) \<in> set (new_calls s s')"
    by (auto simp: new_calls_def)
  with h show ?thesis by blast
qed

lemma waiting_client_simps:
  "message_handlers waiting_client ''req-1'' = Some 0"
  "futures waiting_client 0 = Pending"
  "subscriptions waiting_client ''example.com'' = Some [quiet_cb 1]"
  "listeners_of waiting_client ''example.com'' = [quiet_cb 1]"
  "calls waiting_client = []"
  "logger waiting_client = []"
  by (simp_all add: waiting_client_def register_handler_def new_future_def add_subscription_def
      connected_client_def init_client_def listeners_of_def)

lemma resolved_client_eq:
  "resolved_client = waiting_client\<lparr>futures := (futures waiting_client)(0 := Resolved ack_msg)\<rparr>"
proof -
  have "handle_message waiting_client ack_msg =
          Inr (waiting_client\<lparr>futures := (futures waiting_client)(0 := Resolved ack_msg)\<rparr>)"
    by (rule handle_message_pending[where i = "''req-1''"])
       (simp_all add: waiting_client_simps ack_msg_def)
  then show ?thesis
    by (simp add: resolved_client_def receive_def)
qed

subsection \<open>Routing of correlated envelopes\<close>

text \<open>
  C3: an inbound envelope whose non-empty id is registered in the correlation table with a
  completion handle that is still pending is delivered to that handle, whatever its type:
  the handle becomes resolved with the envelope, and nothing else of the client changes, so
  no listener is called and nothing is logged.
\<close>

theorem C3_matching_id_delivered:
  assumes "map_of message ''id'' = Some (JStr i)" and "i \<noteq> []"
    and "message_handlers s i = Some fut" and "futures s fut = Pending"
  shows "handle_message s message = Inr (s\<lparr>futures := (futures s)(fut := Resolved message)\<rparr>) \<and>
         calls (s\<lparr>futures := (futures s)(fut := Resolved message)\<rparr>) = calls s \<and>
         logger (s\<lparr>futures := (futures s)(fut := Resolved message)\<rparr>) = logger s \<and>
         subscriptions (s\<lparr>futures := (futures s)(fut := Resolved message)\<rparr>) = subscriptions s"
  using assms by (simp add: handle_message_def dict_get_def lookup_key_def)

theorem C3_matching_id_delivered_witness:
  "map_of update_msg ''id'' = Some (JStr ''req-1'') \<and> ''req-1'' \<noteq> [] \<and>
   message_handlers waiting_client ''req-1'' = Some 0 \<and> futures waiting_client 0 = Pending \<and>
   listeners_of waiting_client ''example.com'' = [quiet_cb 1] \<and>
   handle_message waiting_client update_msg =
     Inr (waiting_client\<lparr>futures := (futures waiting_client)(0 := Resolved update_msg)\<rparr>) \<and>
   calls (waiting_client\<lparr>futures := (futures waiting_client)(0 := Resolved update_msg)\<rparr>) = []"
  using C3_matching_id_delivered[of update_msg "''req-1''" waiting_client 0]
  by (simp add: waiting_client_simps update_msg_def)

text \<open>
  C10: an inbound envelope whose id is registered with a completion handle that is already
  done (resolved, and not yet removed from the table) is dropped: the client is left exactly
  as it was, so the handle keeps its first result, no listener is called and nothing is
  logged, whatever the type of the envelope.
\<close>

theorem C10_done_handle_drops:
  assumes "map_of message ''id'' = Some (JStr i)" and "i \<noteq> []"
    and "message_handlers s i = Some fut" and "futures s fut = Resolved r"
  shows "handle_message s message = Inr s"
  using assms by (simp add: handle_message_def dict_get_def lookup_key_def)

theorem C10_done_handle_drops_witness:
  "map_of update_msg ''id'' = Some (JStr ''req-1'') \<and> ''req-1'' \<noteq> [] \<and>
   message_handlers resolved_client ''req-1'' = Some 0 \<and>
   futures resolved_client 0 = Resolved ack_msg \<and>
   map_of update_msg ''type'' = Some (JStr ''domain_update'') \<and>
   listeners_of resolved_client ''example.com'' = [quiet_cb 1] \<and>
   handle_message resolved_client update_msg = Inr resolved_client \<and>
   calls resolved_client = []"
  using C10_done_handle_drops[of update_msg "''req-1''" resolved_client 0 ack_msg]
  by (simp add: resolved_client_eq waiting_client_simps update_msg_def listeners_of_def)

subsection \<open>Dispatch to listeners\<close>

text \<open>
  C7: a subscription appends its callback to the listeners of the domain, and dispatching
  a domain update calls every listener registered for that domain, in that order, and then
  the global listener if one is set, whichever of them raise; each exception is logged as
  an error and goes no further.
\<close>

theorem C7_dispatch_isolates_listeners:
  "listeners_of (add_subscription s d (Some cb)) d = listeners_of s d @ [cb] \<and>
   (\<exists>s'. handle_domain_update s (JStr d) data = Inr s' \<and>
     calls s' = calls s @ map (\<lambda>cb. (cb_id cb, JStr d, data)) (listeners_of s d @ global_listener s) \<and>
     logger s' = logger s @
       map (\<lambda>cb. (ERROR, ''Error in domain callback for {}: {}'',
                   [LVal (JStr d), LStr (the (cb_raises cb (JStr d) data))]))
         (filter (\<lambda>cb. cb_raises cb (JStr d) data \<noteq> None) (listeners_of s d)) @
       map (\<lambda>cb. (ERROR, ''Error in global update callback: {}'',
                   [LStr (the (cb_raises cb (JStr d) data))]))
         (filter (\<lambda>cb. cb_raises cb (JStr d) data \<noteq> None) (global_listener s)))"
  using handle_domain_update_JStr[of s d data] listeners_of_add_subscription[of s d cb]
  by blast

theorem C7_dispatch_isolates_listeners_witness:
  "\<exists>s'. handle_domain_update
          (on_domain_update
             (add_subscription (add_subscription connected_client ''example.com'' (Some (faulty_cb 1)))
                ''example.com'' (Some (quiet_cb 2)))
             (quiet_cb 3))
          (JStr ''example.com'') (JObj []) = Inr s' \<and>
        map fst (calls s') = [1, 2, 3] \<and>
        logger s' = [(ERROR, ''Error in domain callback for {}: {}'',
                      [LVal (JStr ''example.com''), LStr ''boom''])]"
  using C7_dispatch_isolates_listeners[where s =
      "on_domain_update
         (add_subscription (add_subscription connected_client ''example.com'' (Some (faulty_cb 1)))
            ''example.com'' (Some (quiet_cb 2)))
         (quiet_cb 3)" and d = "''example.com''" and data = "JObj []" and cb = "quiet_cb 4"]
  by (auto simp: on_domain_update_def add_subscription_def connected_client_def init_client_def
      listeners_of_def global_listener_def faulty_cb_def quiet_cb_def)

subsection \<open>Registration in the correlation table\<close>

text \<open>
  C2 as the code has it: registering a completion handle never fails. The table is a
  dictionary, and the registration is a plain assignment: it stores a fresh pending handle
  under the id and replaces whatever handle the id had before.
\<close>

theorem C2_register_replaces:
  "message_handlers (snd (register_handler s i)) =
     (message_handlers s)(i \<mapsto> fst (register_handler s i)) \<and>
   fst (register_handler s i) = next_future s \<and>
   futures (snd (register_handler s i)) (fst (register_handler s i)) = Pending"
  by (simp add: register_handler_def new_future_def)

text \<open>
  C2 as stated fails: the id \<^verbatim>\<open>req-1\<close> is registered with handle 0, and a second
  registration under the same id is accepted and puts handle 1 in its place.
\<close>

theorem C2_register_collision_counterexample:
  "message_handlers waiting_client ''req-1'' = Some 0 \<and>
   futures waiting_client 0 = Pending \<and>
   fst (register_handler waiting_client ''req-1'') = 1 \<and>
   message_handlers (snd (register_handler waiting_client ''req-1'')) ''req-1'' = Some 1"
  by (simp add: waiting_client_def register_handler_def new_future_def add_subscription_def
      connected_client_def init_client_def)

subsection \<open>Requests on a client that is not connected\<close>

text \<open>
  C5 as the code has it: on a client that is not connected, \<^verbatim>\<open>test_domain\<close>,
  \<^verbatim>\<open>batch_test\<close>, \<^verbatim>\<open>subscribe\<close> and \<^verbatim>\<open>get_regions\<close> raise the not-connected error at once
  and \<^verbatim>\<open>unsubscribe\<close> returns at once without an error; all five leave the client as it was,
  so nothing is sent.
\<close>

theorem C5_not_connected:
  assumes "\<not> connected s"
  shows "test_domain loads s domain rgns ms now inbound = (Inl not_connected, s) \<and>
         batch_test loads s domains rgns ms now rounds = Some (Inl not_connected, s) \<and>
         subscribe s domain callback ms now inbound = (Inl not_connected, s) \<and>
         get_regions loads s ms now inbound = (Inl not_connected, s) \<and>
         unsubscribe s domain ms now inbound = (Inr (), s)"
  using assms
  by (simp add: test_domain_def test_domain_start_def batch_test_def batch_test_start_def
      subscribe_def subscribe_start_def get_regions_def get_regions_start_def
      unsubscribe_def unsubscribe_start_def)

theorem C5_not_connected_witness:
  "\<not> connected (init_client default_config) \<and>
   test_domain Map.empty (init_client default_config) ''example.com'' None 0 (0, 0) [] =
     (Inl (RuntimeError ''Not connected to ProxyHawk'' []), init_client default_config) \<and>
   batch_test Map.empty (init_client default_config) [''example.com''] None 0 (0, 0) [] =
     Some (Inl (RuntimeError ''Not connected to ProxyHawk'' []), init_client default_config) \<and>
   subscribe (init_client default_config) ''example.com'' None 0 (0, 0) [] =
     (Inl (RuntimeError ''Not connected to ProxyHawk'' []), init_client default_config) \<and>
   get_regions Map.empty (init_client default_config) 0 (0, 0) [] =
     (Inl (RuntimeError ''Not connected to ProxyHawk'' []), init_client default_config) \<and>
   unsubscribe (init_client default_config) ''example.com'' 0 (0, 0) [] =
     (Inr (), init_client default_config) \<and>
   ws (init_client default_config) = None"
  using C5_not_connected[of "init_client default_config" Map.empty "''example.com''" None 0 "(0, 0)" "[]"
      "[''example.com'']" "[]" None]
  by (simp add: init_client_def not_connected_def)

text \<open>
  C5 as stated fails for \<^verbatim>\<open>unsubscribe\<close>: on a client that is not connected it returns
  normally, with no error.
\<close>

theorem C5_unsubscribe_silent_counterexample:
  "\<not> connected (init_client default_config) \<and>
   fst (unsubscribe (init_client default_config) ''example.com'' 0 (0, 0) []) = Inr ()"
  by (simp add: unsubscribe_def unsubscribe_start_def init_client_def)

subsection \<open>What a request leaves behind when it starts to wait\<close>

lemma generate_message_id_nonempty: "fst (generate_message_id s ms) \<noteq> []"
  by (simp add: generate_message_id_def Let_def)

lemma pop_handler_frame:
  "subscriptions (pop_handler i s) = subscriptions s"
  "logger (pop_handler i s) = logger s"
  "ws (pop_handler i s) = ws s"
  "message_handlers (pop_handler i s) i = None"
  by (simp_all add: pop_handler_def)

lemma deliver_single_response:
  assumes "map_of r ''id'' = Some (JStr i)" and "i \<noteq> []"
    and "message_handlers s i = Some fut" and "futures s fut = Pending"
  shows "deliver s [r] = s\<lparr>futures := (futures s)(fut := Resolved r)\<rparr>"
  using handle_message_pending[OF assms] by (simp add: deliver_def receive_def)

lemma wait_for_Resolved: "futures s fut = Resolved r \<Longrightarrow> wait_for s fut = (Inr r, s)"
  by (simp add: wait_for_def)

lemma wait_for_Pending:
  "futures s fut = Pending \<Longrightarrow>
     wait_for s fut = (Inl AsyncioTimeoutError, s\<lparr>futures := (futures s)(fut := Cancelled)\<rparr>)"
  by (simp add: wait_for_def)

lemma test_domain_start_ok:
  assumes "connected s" and "ws s = Some t" and "\<not> closed t"
  shows "\<exists>s1. test_domain_start s d rgns ms now =
            (Inr \<lparr>fr_id = fst (generate_message_id s ms), fr_future = next_future s, fr_domain = d\<rparr>, s1) \<and>
          message_handlers s1 (fst (generate_message_id s ms)) = Some (next_future s) \<and>
          futures s1 (next_future s) = Pending"
  using assms
  by (simp add: test_domain_start_def generate_message_id_def register_handler_def new_future_def
      ws_send_def log_msg_def Let_def)

lemma subscribe_register_props:
  "\<exists>s1 req. subscribe_register s d callback ms now =
       ((\<lparr>fr_id = fst (generate_message_id s ms), fr_future = next_future s, fr_domain = d\<rparr>, req), s1) \<and>
     message_handlers s1 (fst (generate_message_id s ms)) = Some (next_future s) \<and>
     futures s1 (next_future s) = Pending \<and>
     ws s1 = ws s \<and>
     subscriptions s1 = subscriptions (add_subscription s d callback)"
  by (simp add: subscribe_register_def generate_message_id_def register_handler_def new_future_def
      add_subscription_def Let_def split: option.splits)

lemma ws_send_frame:
  "ws_send s req = Inr s' \<Longrightarrow>
     subscriptions s' = subscriptions s \<and> message_handlers s' = message_handlers s \<and>
     futures s' = futures s \<and> logger s' = logger s"
  by (auto simp: ws_send_def split: option.splits if_splits)

lemma ws_send_open:
  "ws s = Some t \<Longrightarrow> \<not> closed t \<Longrightarrow> \<exists>s'. ws_send s req = Inr s'"
  by (simp add: ws_send_def)

lemma subscribe_start_ok:
  assumes "connected s" and "ws s = Some t" and "\<not> closed t"
  shows "\<exists>s1. subscribe_start s d callback ms now =
            (Inr \<lparr>fr_id = fst (generate_message_id s ms), fr_future = next_future s, fr_domain = d\<rparr>, s1) \<and>
          message_handlers s1 (fst (generate_message_id s ms)) = Some (next_future s) \<and>
          futures s1 (next_future s) = Pending"
proof -
  obtain s1 req where r: "subscribe_register s d callback ms now =
       ((\<lparr>fr_id = fst (generate_message_id s ms), fr_future = next_future s, fr_domain = d\<rparr>, req), s1)"
    and p: "message_handlers s1 (fst (generate_message_id s ms)) = Some (next_future s)"
      "futures s1 (next_future s) = Pending" "ws s1 = ws s"
    using subscribe_register_props[of s d callback ms now] by blast
  from p(3) assms obtain s2 where s: "ws_send s1 req = Inr s2"
    using ws_send_open[of s1 t req] by auto
  from ws_send_frame[OF s] p r s assms(1) show ?thesis
    by (simp add: subscribe_start_def)
qed

lemma subscribe_start_subscriptions:
  "connected s \<Longrightarrow>
     subscriptions (snd (subscribe_start s d callback ms now)) =
       subscriptions (add_subscription s d callback)"
proof -
  assume c: "connected s"
  obtain s1 fr req where r: "subscribe_register s d callback ms now = ((fr, req), s1)"
    and p: "subscriptions s1 = subscriptions (add_subscription s d callback)"
    using subscribe_register_props[of s d callback ms now] by blast
  show ?thesis
  proof (cases "ws_send s1 req")
    case (Inl e)
    with r p c show ?thesis by (simp add: subscribe_start_def pop_handler_frame)
  next
    case (Inr s2)
    with r p c ws_send_frame[OF Inr] show ?thesis by (simp add: subscribe_start_def)
  qed
qed

lemma subscribe_resume_subscriptions:
  "subscriptions (snd (subscribe_resume s fr)) = subscriptions s"
  by (auto simp: subscribe_resume_def wait_for_def pop_handler_def log_msg_def
      split: future.splits)

lemma subscribe_subscriptions:
  "connected s \<Longrightarrow>
     subscriptions (snd (subscribe s d callback ms now inbound)) =
       subscriptions (add_subscription s d callback)"
  using subscribe_start_subscriptions[of s d callback ms now]
  by (cases "subscribe_start s d callback ms now")
     (auto simp: subscribe_def subscribe_resume_subscriptions deliver_subscriptions split: sum.splits)

lemma listeners_of_cong: "subscriptions s = subscriptions s' \<Longrightarrow> listeners_of s d = listeners_of s' d"
  by (simp add: listeners_of_def)

subsection \<open>Subscribing\<close>

text \<open>
  C8: \<^verbatim>\<open>subscribe\<close> appends the callback to the listeners of the domain before it sends
  anything: when the registration part is over the transport is as it was on entry, the
  callback is the last listener of the domain, and \<^verbatim>\<open>subscribe\<close> sends from that state.
  From then on, whatever messages the receiver handles in between, a dispatched update for
  the domain calls the callback.
\<close>

theorem C8_subscribe_registers_before_send:
  assumes "connected s"
  shows "\<exists>fr req s1.
           subscribe_register s d (Some cb) ms now = ((fr, req), s1) \<and>
           ws s1 = ws s \<and>
           listeners_of s1 d = listeners_of s d @ [cb] \<and>
           subscribe_start s d (Some cb) ms now =
             (case ws_send s1 req of
                Inl e \<Rightarrow> (Inl e, pop_handler (fr_id fr) s1)
              | Inr s2 \<Rightarrow> (Inr fr, s2)) \<and>
           (\<exists>s3. handle_domain_update (deliver s1 msgs) (JStr d) data = Inr s3 \<and>
                 (cb_id cb, JStr d, data) \<in> set (new_calls (deliver s1 msgs) s3))"
proof -
  obtain s1 req fr where r: "subscribe_register s d (Some cb) ms now = ((fr, req), s1)"
    and w: "ws s1 = ws s"
    and p: "subscriptions s1 = subscriptions (add_subscription s d (Some cb))"
    using subscribe_register_props[of s d "Some cb" ms now] by blast
  have l: "listeners_of s1 d = listeners_of s d @ [cb]"
    using listeners_of_cong[OF p, of d] by (simp add: listeners_of_add_subscription)
  have "listeners_of (deliver s1 msgs) d = listeners_of s1 d"
    by (rule listeners_of_cong) (rule deliver_subscriptions)
  with l have "cb \<in> set (listeners_of (deliver s1 msgs) d)" by simp
  from dispatch_invokes[OF this, of data] r w l assms show ?thesis
    by (simp add: subscribe_start_def)
qed

theorem C8_subscribe_registers_before_send_witness:
  "connected connected_client \<and>
   (\<exists>fr req s1.
      subscribe_register connected_client ''example.com'' (Some (quiet_cb 7)) 0 (0, 0) = ((fr, req), s1) \<and>
      ws s1 = Some \<lparr>closed = False, sent = []\<rparr> \<and>
      listeners_of s1 ''example.com'' = [quiet_cb 7] \<and>
      (\<exists>s3. handle_domain_update (deliver s1 []) (JStr ''example.com'') (JObj []) = Inr s3 \<and>
            (7, JStr ''example.com'', JObj []) \<in> set (new_calls (deliver s1 []) s3)))"
  using C8_subscribe_registers_before_send[of connected_client "''example.com''" "quiet_cb 7" 0 "(0, 0)" "[]" "JObj []"]
  by (auto simp: connected_client_def init_client_def listeners_of_def quiet_cb_def)

text \<open>
  C9: when \<^verbatim>\<open>subscribe\<close> with a callback fails on a connected client, be it on the error
  field of the acknowledgment, on the timeout of the wait or on the send itself, the callback
  is still the last listener of the domain in the client it leaves behind, and a later
  update for the domain calls it: nothing is rolled back.
\<close>

theorem C9_subscribe_failure_keeps_callback:
  assumes "connected s" and "fst (subscribe s d (Some cb) ms now inbound) = Inl e"
  shows "listeners_of (snd (subscribe s d (Some cb) ms now inbound)) d = listeners_of s d @ [cb] \<and>
         (\<exists>s3. handle_domain_update (snd (subscribe s d (Some cb) ms now inbound)) (JStr d) data = Inr s3 \<and>
               (cb_id cb, JStr d, data) \<in> set (new_calls (snd (subscribe s d (Some cb) ms now inbound)) s3))"
proof -
  let ?s' = "snd (subscribe s d (Some cb) ms now inbound)"
  have l: "listeners_of ?s' d = listeners_of s d @ [cb]"
    using listeners_of_cong[OF subscribe_subscriptions[OF assms(1), of d "Some cb" ms now inbound], of d]
    by (simp add: listeners_of_add_subscription)
  then have "cb \<in> set (listeners_of ?s' d)" by simp
  from dispatch_invokes[OF this, of data] l show ?thesis by simp
qed

theorem C9_subscribe_failure_keeps_callback_witness:
  "connected connected_client \<and>
   fst (subscribe connected_client ''example.com'' (Some (quiet_cb 7)) 0 (0, 0)
          [error_reply ''python_client_0_1'']) =
     Inl (RuntimeError ''Subscription error: {}'' [JStr ''region unavailable'']) \<and>
   listeners_of (snd (subscribe connected_client ''example.com'' (Some (quiet_cb 7)) 0 (0, 0)
                        [error_reply ''python_client_0_1''])) ''example.com'' = [quiet_cb 7] \<and>
   fst (subscribe connected_client ''example.com'' (Some (quiet_cb 7)) 0 (0, 0) []) =
     Inl AsyncioTimeoutError \<and>
   listeners_of (snd (subscribe connected_client ''example.com'' (Some (quiet_cb 7)) 0 (0, 0) []))
     ''example.com'' = [quiet_cb 7]"
proof -
  have c: "connected connected_client"
    by (simp add: connected_client_def init_client_def)
  have l: "listeners_of connected_client ''example.com'' = []"
    by (simp add: connected_client_def init_client_def listeners_of_def)
  have e: "fst (subscribe connected_client ''example.com'' (Some (quiet_cb 7)) 0 (0, 0)
                  [error_reply ''python_client_0_1'']) =
             Inl (RuntimeError ''Subscription error: {}'' [JStr ''region unavailable''])"
    by (simp add: subscribe_def subscribe_start_def subscribe_register_def subscribe_resume_def
        generate_message_id_def register_handler_def new_future_def add_subscription_def
        ws_send_def wait_for_def deliver_def receive_def handle_message_def lookup_key_def
        dict_get_def error_reply_def str_int_def str_nat.simps digit_def connected_client_def init_client_def
        Let_def)
  have t: "fst (subscribe connected_client ''example.com'' (Some (quiet_cb 7)) 0 (0, 0) []) =
             Inl AsyncioTimeoutError"
    by (simp add: subscribe_def subscribe_start_def subscribe_register_def subscribe_resume_def
        generate_message_id_def register_handler_def new_future_def add_subscription_def
        ws_send_def wait_for_def deliver_def connected_client_def init_client_def Let_def)
  from C9_subscribe_failure_keeps_callback[OF c e, of "JObj []"]
       C9_subscribe_failure_keeps_callback[OF c t, of "JObj []"] c e t l
  show ?thesis by simp
qed

subsection \<open>Unsubscribing\<close>

lemma unsubscribe_start_Await:
  assumes "unsubscribe_start s d ms now = (Inr (Await fr), s1)"
  shows "subscriptions s1 = subscriptions s \<and> fr_domain fr = d"
  using assms
  by (auto simp: unsubscribe_start_def register_handler_def new_future_def ws_send_def Let_def
      split: if_splits option.splits prod.splits
      simp: generate_message_id_def)

text \<open>
  C1 as the code has it: once \<^verbatim>\<open>unsubscribe\<close> has sent its request, it removes the
  listeners of the domain when the acknowledgment has arrived by the time the wait is over;
  when the wait times out instead, it logs a warning, returns normally and leaves the local
  subscription table as it was.
\<close>

theorem C1_unsubscribe_removes_on_ack_only:
  assumes "unsubscribe_start s d ms now = (Inr (Await fr), s1)"
  shows "(futures (deliver s1 inbound) (fr_future fr) = Resolved r \<longrightarrow>
            fst (unsubscribe s d ms now inbound) = Inr () \<and>
            subscriptions (snd (unsubscribe s d ms now inbound)) = (subscriptions s)(d := None)) \<and>
         (futures (deliver s1 inbound) (fr_future fr) = Pending \<longrightarrow>
            fst (unsubscribe s d ms now inbound) = Inr () \<and>
            subscriptions (snd (unsubscribe s d ms now inbound)) = subscriptions s \<and>
            logger (snd (unsubscribe s d ms now inbound)) =
              logger (deliver s1 inbound) @ [(WARNING, ''Unsubscribe timeout for domain: {}'', [LStr d])])"
  using assms unsubscribe_start_Await[OF assms] deliver_subscriptions[of s1 inbound]
  by (simp add: unsubscribe_def unsubscribe_resume_def wait_for_def pop_handler_def log_msg_def)

theorem C1_unsubscribe_removes_on_ack_only_witness:
  "unsubscribe_start subscribed_client ''example.com'' 0 (0, 0) =
     (Inr (Await \<lparr>fr_id = ''python_client_0_1'', fr_future = 0, fr_domain = ''example.com''\<rparr>),
      snd (unsubscribe_start subscribed_client ''example.com'' 0 (0, 0))) \<and>
   futures (deliver (snd (unsubscribe_start subscribed_client ''example.com'' 0 (0, 0)))
              [ack_reply ''python_client_0_1'']) 0 = Resolved (ack_reply ''python_client_0_1'') \<and>
   subscriptions subscribed_client ''example.com'' = Some [quiet_cb 1] \<and>
   fst (unsubscribe subscribed_client ''example.com'' 0 (0, 0) [ack_reply ''python_client_0_1'']) = Inr () \<and>
   subscriptions (snd (unsubscribe subscribed_client ''example.com'' 0 (0, 0)
                         [ack_reply ''python_client_0_1''])) ''example.com'' = None \<and>
   futures (deliver (snd (unsubscribe_start subscribed_client ''example.com'' 0 (0, 0))) []) 0 = Pending \<and>
   fst (unsubscribe subscribed_client ''example.com'' 0 (0, 0) []) = Inr () \<and>
   subscriptions (snd (unsubscribe subscribed_client ''example.com'' 0 (0, 0) [])) ''example.com'' =
     Some [quiet_cb 1]"
proof -
  let ?fr = "\<lparr>fr_id = ''python_client_0_1'', fr_future = 0, fr_domain = ''example.com''\<rparr>"
  let ?s1 = "snd (unsubscribe_start subscribed_client ''example.com'' 0 (0, 0))"
  have st: "unsubscribe_start subscribed_client ''example.com'' 0 (0, 0) = (Inr (Await ?fr), ?s1)"
    by (simp add: unsubscribe_start_def generate_message_id_def register_handler_def
        new_future_def ws_send_def str_int_def str_nat.simps digit_def subscribed_client_def
        add_subscription_def connected_client_def init_client_def Let_def)
  have a: "futures (deliver ?s1 [ack_reply ''python_client_0_1'']) 0 =
             Resolved (ack_reply ''python_client_0_1'')"
    by (simp add: unsubscribe_start_def generate_message_id_def register_handler_def
        new_future_def ws_send_def str_int_def str_nat.simps digit_def subscribed_client_def
        add_subscription_def connected_client_def init_client_def Let_def
        deliver_def receive_def handle_message_def lookup_key_def dict_get_def ack_reply_def)
  have p: "futures (deliver ?s1 []) 0 = Pending"
    by (simp add: unsubscribe_start_def generate_message_id_def register_handler_def
        new_future_def ws_send_def subscribed_client_def
        add_subscription_def connected_client_def init_client_def Let_def deliver_def)
  have s: "subscriptions subscribed_client ''example.com'' = Some [quiet_cb 1]"
    by (simp add: subscribed_client_def add_subscription_def connected_client_def init_client_def)
  from C1_unsubscribe_removes_on_ack_only[OF st, of "[ack_reply ''python_client_0_1'']"
         "ack_reply ''python_client_0_1''"]
       C1_unsubscribe_removes_on_ack_only[OF st, of "[]" "[]"] st a p s
  show ?thesis by simp
qed

text \<open>
  C1 as stated fails: with one listener for \<^verbatim>\<open>example.com\<close> and no acknowledgment before
  the wait is over, \<^verbatim>\<open>unsubscribe\<close> completes normally and the listener is still in the table.
\<close>

theorem C1_unsubscribe_timeout_counterexample:
  "fst (unsubscribe subscribed_client ''example.com'' 0 (0, 0) []) = Inr () \<and>
   map_option (map cb_id)
     (subscriptions (snd (unsubscribe subscribed_client ''example.com'' 0 (0, 0) [])) ''example.com'') =
     Some [1] \<and>
   last (logger (snd (unsubscribe subscribed_client ''example.com'' 0 (0, 0) []))) =
     (WARNING, ''Unsubscribe timeout for domain: {}'', [LStr ''example.com''])"
  by (simp add: unsubscribe_def unsubscribe_start_def unsubscribe_resume_def
      generate_message_id_def register_handler_def new_future_def ws_send_def wait_for_def
      pop_handler_def log_msg_def deliver_def subscribed_client_def add_subscription_def
      connected_client_def init_client_def quiet_cb_def Let_def)

subsection \<open>The turns of the batch loop\<close>

lemma batch_test_start_ok:
  assumes "connected s" and "ws s = Some t" and "\<not> closed t" and "domains \<noteq> []"
  shows "\<exists>s1. batch_test_start s domains rgns ms now =
            (Inr (Await \<lparr>fr_id = fst (generate_message_id s ms), fr_future = next_future s,
                         fr_domains = domains, fr_results = []\<rparr>), s1) \<and>
          message_handlers s1 (fst (generate_message_id s ms)) = Some (next_future s) \<and>
          futures s1 (next_future s) = Pending"
  using assms
  by (simp add: batch_test_start_def generate_message_id_def register_handler_def new_future_def
      ws_send_def log_msg_def Let_def)



lemma batch_turn_response:
  assumes "length (fr_results fr) < length (fr_domains fr)"
    and "message_handlers s (fr_id fr) = Some (fr_future fr)"
    and "futures s (fr_future fr) = Pending"
    and "map_of r ''id'' = Some (JStr (fr_id fr))" and "fr_id fr \<noteq> []"
  shows "batch_turn loads (s, fr, [r] # rounds) =
           (case batch_body loads (s\<lparr>futures := (futures s)(fr_future fr := Resolved r)\<rparr>) fr r of
              (Inl e, s3) \<Rightarrow> Inl (Inl e, s3)
            | (Inr (Break rs), s3) \<Rightarrow> Inl (Inr rs, s3)
            | (Inr (Continue fr1), s3) \<Rightarrow> Inr (s3, fr1, rounds))"
  using assms deliver_single_response[OF assms(4,5,2,3)]
  by (simp add: batch_turn_def wait_for_def Let_def split: prod.splits sum.splits batch_next.splits)

lemma batch_body_error:
  "truthy (dict_get r ''error'' JNull) \<Longrightarrow>
     batch_body loads s fr r =
       (Inr (Break (fr_results fr)),
        log_msg ERROR ''Batch test error: {}'' [LVal (dict_get r ''error'' JNull)] s)"
  by (simp add: batch_body_def)


lemma is_partial_data:
  assumes "is_partial mid r gs"
  shows "\<exists>d rs. map_of r ''data'' = Some (JObj d) \<and> map_of d ''results'' = Some (JArr rs) \<and>
           mapE parse_geo_test_result rs = Inr gs"
proof (cases "map_of r ''data''")
  case None
  with assms show ?thesis by (simp add: is_partial_def)
next
  case (Some v)
  show ?thesis
  proof (cases v)
    case (JObj d)
    show ?thesis
    proof (cases "map_of d ''results''")
      case None
      with assms Some JObj show ?thesis by (simp add: is_partial_def)
    next
      case (Some w)
      with assms \<open>map_of r ''data'' = Some v\<close> JObj show ?thesis
        by (cases w) (simp_all add: is_partial_def)
    qed
  qed (use assms Some in \<open>simp_all add: is_partial_def\<close>)
qed


lemma batch_body_partial:
  assumes "is_partial mid r gs"
  shows "batch_body loads s fr r =
           (if length (fr_results fr @ gs) < length (fr_domains fr)
            then (Inr (Continue (fr\<lparr>fr_results := fr_results fr @ gs, fr_future := next_future s\<rparr>)),
                  snd (register_handler s (fr_id fr)))
            else (Inr (Continue (fr\<lparr>fr_results := fr_results fr @ gs\<rparr>)), s))"
proof -
  from is_partial_data[OF assms] obtain d rs where
    d: "map_of r ''data'' = Some (JObj d)" "map_of d ''results'' = Some (JArr rs)"
      "mapE parse_geo_test_result rs = Inr gs" by blast
  from assms have h: "\<not> truthy (dict_get r ''error'' JNull)"
    "map_of r ''type'' = Some (JStr ''batch_partial'')"
    by (simp_all add: is_partial_def)
  have dec: "bindE (decode_data loads r) (\<lambda>partial_data.
               bindE (attr_get partial_data ''results'' (JArr [])) (\<lambda>l.
               bindE (py_iter l) (mapE parse_geo_test_result))) = Inr gs"
    using d by (simp add: decode_data_def dict_item_def attr_get_def dict_get_def py_iter_def)
  have ty: "dict_item r ''type'' = Inr (JStr ''batch_partial'')"
    using h by (simp add: dict_item_def)
  show ?thesis
    unfolding batch_body_def using h(1) ty dec
    by (simp add: register_handler_def new_future_def Let_def)
qed

lemma batch_body_partial_more:
  "is_partial mid r gs \<Longrightarrow> length (fr_results fr @ gs) < length (fr_domains fr) \<Longrightarrow>
     batch_body loads s fr r =
       (Inr (Continue (fr\<lparr>fr_results := fr_results fr @ gs, fr_future := next_future s\<rparr>)),
        snd (register_handler s (fr_id fr)))"
  by (simp add: batch_body_partial)


lemma is_partial_id: "is_partial mid r gs \<Longrightarrow> map_of r ''id'' = Some (JStr mid)"
  by (simp add: is_partial_def)


lemma batch_loop_step: "batch_turn loads x = Inr x1 \<Longrightarrow> batch_loop loads x = batch_loop loads x1"
  by (subst batch_loop.simps) simp

lemma batch_loop_stop: "batch_turn loads x = Inl res \<Longrightarrow> batch_loop loads x = Some res"
  by (subst batch_loop.simps) simp

text \<open>
  After any number of partial envelopes that leave the count below the number of domains,
  the loop is where it was at the start, with the results of the partials appended in order
  and the same id registered again with a fresh pending handle.
\<close>

lemma batch_loop_partials:
  assumes "list_all2 (is_partial mid) ps gss"
    and "fr_id fr = mid" and "mid \<noteq> []"
    and "message_handlers s mid = Some (fr_future fr)"
    and "futures s (fr_future fr) = Pending"
    and "length (fr_results fr) + length (concat gss) < length (fr_domains fr)"
  shows "\<exists>s' fr'.
           (\<forall>rounds. batch_loop loads (s, fr, map (\<lambda>p. [p]) ps @ rounds) =
                      batch_loop loads (s', fr', rounds)) \<and>
           fr_id fr' = mid \<and> fr_domains fr' = fr_domains fr \<and>
           fr_results fr' = fr_results fr @ concat gss \<and>
           message_handlers s' mid = Some (fr_future fr') \<and>
           futures s' (fr_future fr') = Pending"
  using assms
proof (induction ps gss arbitrary: s fr rule: list_all2_induct)
  case Nil
  then show ?case by auto
next
  case (Cons p ps gs gss)
  let ?s2 = "s\<lparr>futures := (futures s)(fr_future fr := Resolved p)\<rparr>"
  let ?s3 = "snd (register_handler ?s2 (fr_id fr))"
  let ?fr1 = "fr\<lparr>fr_results := fr_results fr @ gs, fr_future := next_future ?s2\<rparr>"
  from Cons.prems have below: "length (fr_results fr @ gs) < length (fr_domains fr)"
    and cond: "length (fr_results fr) < length (fr_domains fr)" by auto
  have body: "batch_body loads ?s2 fr p = (Inr (Continue ?fr1), ?s3)"
    using batch_body_partial_more[OF Cons.hyps(1) below, of loads ?s2] by simp
  have turn: "batch_turn loads (s, fr, [p] # rounds) = Inr (?s3, ?fr1, rounds)" for rounds
    using batch_turn_response[of fr s p loads rounds] cond Cons.prems is_partial_id[OF Cons.hyps(1)] body
    by simp
  have reg: "message_handlers ?s3 mid = Some (fr_future ?fr1)" "futures ?s3 (fr_future ?fr1) = Pending"
    using Cons.prems(1) by (simp_all add: register_handler_def new_future_def)
  have len: "length (fr_results ?fr1) + length (concat gss) < length (fr_domains ?fr1)"
    using Cons.prems by simp
  have idf: "fr_id ?fr1 = mid" using Cons.prems(1) by simp
  from Cons.IH[OF idf Cons.prems(2) reg len]
  obtain s' fr' where
    ih: "\<forall>rounds. batch_loop loads (?s3, ?fr1, map (\<lambda>p. [p]) ps @ rounds) =
                    batch_loop loads (s', fr', rounds)"
    and rest: "fr_id fr' = mid" "fr_domains fr' = fr_domains ?fr1"
      "fr_results fr' = fr_results ?fr1 @ concat gss"
      "message_handlers s' mid = Some (fr_future fr')" "futures s' (fr_future fr') = Pending"
    by blast
  have "batch_loop loads (s, fr, map (\<lambda>p. [p]) (p # ps) @ rounds) =
          batch_loop loads (s', fr', rounds)" for rounds
    using batch_loop_step[OF turn[of "map (\<lambda>p. [p]) ps @ rounds"]] ih by simp
  with rest show ?case by auto
qed



subsection \<open>Batch tests\<close>




subsection \<open>Responses that carry an error\<close>

lemma unsubscribe_start_ok:
  assumes "connected s" and "ws s = Some t" and "\<not> closed t"
  shows "\<exists>s1. unsubscribe_start s d ms now =
            (Inr (Await \<lparr>fr_id = fst (generate_message_id s ms), fr_future = next_future s,
                         fr_domain = d\<rparr>), s1) \<and>
          message_handlers s1 (fst (generate_message_id s ms)) = Some (next_future s) \<and>
          futures s1 (next_future s) = Pending"
  using assms
  by (simp add: unsubscribe_start_def generate_message_id_def register_handler_def new_future_def
      ws_send_def Let_def)

lemma get_regions_start_ok:
  assumes "connected s" and "ws s = Some t" and "\<not> closed t"
  shows "\<exists>s1. get_regions_start s ms now =
            (Inr \<lparr>fr_id = fst (generate_message_id s ms), fr_future = next_future s\<rparr>, s1) \<and>
          message_handlers s1 (fst (generate_message_id s ms)) = Some (next_future s) \<and>
          futures s1 (next_future s) = Pending"
  using assms
  by (simp add: get_regions_start_def generate_message_id_def register_handler_def new_future_def
      ws_send_def Let_def)

lemma deliver_single_wait:
  assumes "map_of r ''id'' = Some (JStr i)" and "i \<noteq> []"
    and "message_handlers s i = Some fut" and "futures s fut = Pending"
  shows "wait_for (deliver s [r]) fut = (Inr r, s\<lparr>futures := (futures s)(fut := Resolved r)\<rparr>)"
  using deliver_single_response[OF assms] by (simp add: wait_for_def)

text \<open>
  C6 as the code has it: when the response delivered to a waiting request carries a
  non-empty error field, \<^verbatim>\<open>test_domain\<close> and \<^verbatim>\<open>subscribe\<close> raise an error that carries it,
  while \<^verbatim>\<open>batch_test\<close> logs it, leaves its loop and returns as a normal result the
  results it has accumulated so far: those of the partial envelopes that came before the
  error, each in its own wait, in arrival order, and so the empty list when the error
  comes first.
\<close>

theorem C6_error_response:
  assumes "connected s" and "ws s = Some t" and "\<not> closed t"
    and "mid = fst (generate_message_id s ms)"
    and "map_of r ''id'' = Some (JStr mid)"
    and "truthy (dict_get r ''error'' JNull)"
  shows "fst (test_domain loads s d rgns ms now [r]) =
           Inl (RuntimeError ''ProxyHawk error: {}'' [dict_get r ''error'' JNull]) \<and>
         fst (subscribe s d callback ms now [r]) =
           Inl (RuntimeError ''Subscription error: {}'' [dict_get r ''error'' JNull]) \<and>
         (domains \<noteq> [] \<and> list_all2 (is_partial mid) ps gss \<and>
          length (concat gss) < length domains \<longrightarrow>
            (\<exists>s'. batch_test loads s domains rgns ms now (map (\<lambda>p. [p]) ps @ [r] # rest) =
                    Some (Inr (concat gss), s') \<and>
                  last (logger s') =
                    (ERROR, ''Batch test error: {}'', [LVal (dict_get r ''error'' JNull)])))"
proof -
  have ne: "mid \<noteq> []" using assms(4) generate_message_id_nonempty by simp
  have td: "fst (test_domain loads s d rgns ms now [r]) =
              Inl (RuntimeError ''ProxyHawk error: {}'' [dict_get r ''error'' JNull])"
  proof -
    from test_domain_start_ok[OF assms(1-3), of d rgns ms now] assms(4)
    obtain s1 where st: "test_domain_start s d rgns ms now =
          (Inr \<lparr>fr_id = mid, fr_future = next_future s, fr_domain = d\<rparr>, s1)"
      and reg: "message_handlers s1 mid = Some (next_future s)" "futures s1 (next_future s) = Pending"
      by auto
    from deliver_single_wait[OF assms(5) ne reg] st assms(6) show ?thesis
      by (simp add: test_domain_def test_domain_resume_def)
  qed
  have sb: "fst (subscribe s d callback ms now [r]) =
              Inl (RuntimeError ''Subscription error: {}'' [dict_get r ''error'' JNull])"
  proof -
    from subscribe_start_ok[OF assms(1-3), of d callback ms now] assms(4)
    obtain s1 where st: "subscribe_start s d callback ms now =
          (Inr \<lparr>fr_id = mid, fr_future = next_future s, fr_domain = d\<rparr>, s1)"
      and reg: "message_handlers s1 mid = Some (next_future s)" "futures s1 (next_future s) = Pending"
      by auto
    from deliver_single_wait[OF assms(5) ne reg] st assms(6) show ?thesis
      by (simp add: subscribe_def subscribe_resume_def)
  qed
  have bt: "\<exists>s'. batch_test loads s domains rgns ms now (map (\<lambda>p. [p]) ps @ [r] # rest) =
                    Some (Inr (concat gss), s') \<and>
                  last (logger s') =
                    (ERROR, ''Batch test error: {}'', [LVal (dict_get r ''error'' JNull)])"
    if d: "domains \<noteq> []" and ps: "list_all2 (is_partial mid) ps gss"
      and len: "length (concat gss) < length domains"
  proof -
    let ?fr0 = "\<lparr>fr_id = mid, fr_future = next_future s, fr_domains = domains, fr_results = []\<rparr>"
    from batch_test_start_ok[OF assms(1-3) d, of rgns ms now] assms(4)
    obtain s1 where st: "batch_test_start s domains rgns ms now = (Inr (Await ?fr0), s1)"
      and reg: "message_handlers s1 mid = Some (fr_future ?fr0)" "futures s1 (fr_future ?fr0) = Pending"
      by auto
    have "length (fr_results ?fr0) + length (concat gss) < length (fr_domains ?fr0)"
      using len by simp
    from batch_loop_partials[OF ps _ ne reg this, of loads]
    obtain s2 fr2 where
      pre: "\<And>rounds. batch_loop loads (s1, ?fr0, map (\<lambda>p. [p]) ps @ rounds) =
                       batch_loop loads (s2, fr2, rounds)"
      and fr2: "fr_id fr2 = mid" "fr_domains fr2 = domains" "fr_results fr2 = concat gss"
      and reg2: "message_handlers s2 mid = Some (fr_future fr2)" "futures s2 (fr_future fr2) = Pending"
      by auto
    have cond: "length (fr_results fr2) < length (fr_domains fr2)"
      using fr2 len by simp
    have "batch_turn loads (s2, fr2, [r] # rest) =
            Inl (Inr (fr_results fr2),
                 log_msg ERROR ''Batch test error: {}'' [LVal (dict_get r ''error'' JNull)]
                   (s2\<lparr>futures := (futures s2)(fr_future fr2 := Resolved r)\<rparr>))"
      using batch_turn_response[of fr2 s2 r loads rest] cond reg2 fr2(1) assms(5) ne
        batch_body_error[OF assms(6), of loads _ fr2]
      by simp
    from batch_loop_stop[OF this] pre[of "[r] # rest"] st fr2(3) show ?thesis
      by (simp add: batch_test_def pop_handler_def log_msg_def)
  qed
  from td sb bt show ?thesis by blast
qed

theorem C6_error_response_witness:
  "connected connected_client \<and> ws connected_client = Some \<lparr>closed = False, sent = []\<rparr> \<and>
   ''python_client_0_1'' = fst (generate_message_id connected_client 0) \<and>
   map_of (error_reply ''python_client_0_1'') ''id'' = Some (JStr ''python_client_0_1'') \<and>
   truthy (dict_get (error_reply ''python_client_0_1'') ''error'' JNull) \<and>
   list_all2 (is_partial ''python_client_0_1'') [partial_ab] [[result_of ''a.com'', result_of ''b.com'']] \<and>
   fst (test_domain Map.empty connected_client ''example.com'' None 0 (0, 0)
          [error_reply ''python_client_0_1'']) =
     Inl (RuntimeError ''ProxyHawk error: {}'' [JStr ''region unavailable'']) \<and>
   fst (subscribe connected_client ''example.com'' None 0 (0, 0) [error_reply ''python_client_0_1'']) =
     Inl (RuntimeError ''Subscription error: {}'' [JStr ''region unavailable'']) \<and>
   (\<exists>s'. batch_test Map.empty connected_client [''a.com'', ''b.com'', ''c.com''] None 0 (0, 0)
            [[partial_ab], [error_reply ''python_client_0_1'']] =
            Some (Inr [result_of ''a.com'', result_of ''b.com''], s') \<and>
          last (logger s') = (ERROR, ''Batch test error: {}'', [LVal (JStr ''region unavailable'')]))"
proof -
  have c: "connected connected_client" "ws connected_client = Some \<lparr>closed = False, sent = []\<rparr>"
    "\<not> closed \<lparr>closed = False, sent = []\<rparr>"
    by (simp_all add: connected_client_def init_client_def)
  have m: "''python_client_0_1'' = fst (generate_message_id connected_client 0)"
    by (simp add: generate_message_id_0_1)
  have i: "map_of (error_reply ''python_client_0_1'') ''id'' = Some (JStr ''python_client_0_1'')"
    by (simp add: error_reply_def)
  have e: "truthy (dict_get (error_reply ''python_client_0_1'') ''error'' JNull)"
    "dict_get (error_reply ''python_client_0_1'') ''error'' JNull = JStr ''region unavailable''"
    by (simp_all add: error_reply_def dict_get_def)
  have p: "list_all2 (is_partial ''python_client_0_1'') [partial_ab]
             [[result_of ''a.com'', result_of ''b.com'']]"
    by (simp add: is_partial_def partial_ab_def dict_get_def parse_result_json)
  from C6_error_response[OF c m i e(1), where loads = Map.empty and d = "''example.com''"
         and rgns = None and now = "(0, 0)" and callback = None
         and domains = "[''a.com'', ''b.com'', ''c.com'']" and ps = "[partial_ab]"
         and gss = "[[result_of ''a.com'', result_of ''b.com'']]" and rest = "[]"]
       c m i e p
  show ?thesis by auto
qed

text \<open>
  C6 as stated fails: a \<^verbatim>\<open>batch_test\<close> whose response carries a non-empty error field
  returns normally, with the empty list as its result.
\<close>

theorem C6_batch_error_counterexample:
  "truthy (dict_get (error_reply ''python_client_0_1'') ''error'' JNull) \<and>
   map_option fst
     (batch_test Map.empty connected_client [''example.com''] None 0 (0, 0)
        [[error_reply ''python_client_0_1'']]) = Some (Inr [])"
proof -
  let ?fr = "\<lparr>fr_id = ''python_client_0_1'', fr_future = 0,
              fr_domains = [''example.com''], fr_results = []\<rparr>"
  let ?r = "error_reply ''python_client_0_1''"
  have e: "truthy (dict_get ?r ''error'' JNull)"
    by (simp add: error_reply_def dict_get_def)
  have i: "map_of ?r ''id'' = Some (JStr (fr_id ?fr))"
    by (simp add: error_reply_def)
  have "\<exists>s1. batch_test_start connected_client [''example.com''] None 0 (0, 0) =
               (Inr (Await ?fr), s1) \<and>
             message_handlers s1 ''python_client_0_1'' = Some 0 \<and> futures s1 0 = Pending"
    using batch_test_start_ok[of connected_client "\<lparr>closed = False, sent = []\<rparr>"
        "[''example.com'']" None 0 "(0, 0)"]
    by (simp add: generate_message_id_0_1) (simp add: connected_client_def init_client_def)
  then obtain s1 where
    st: "batch_test_start connected_client [''example.com''] None 0 (0, 0) = (Inr (Await ?fr), s1)"
    and reg: "message_handlers s1 (fr_id ?fr) = Some (fr_future ?fr)"
      "futures s1 (fr_future ?fr) = Pending"
    by auto
  have "batch_turn Map.empty (s1, ?fr, [[?r]]) =
          Inl (Inr [], log_msg ERROR ''Batch test error: {}'' [LVal (dict_get ?r ''error'' JNull)]
                         (s1\<lparr>futures := (futures s1)(0 := Resolved ?r)\<rparr>))"
    using batch_turn_response[OF _ reg i, of Map.empty "[]"]
      batch_body_error[OF e, of Map.empty _ ?fr]
    by simp
  from batch_loop_stop[OF this] st e show ?thesis
    by (simp add: batch_test_def)
qed

text \<open>
  What \<^verbatim>\<open>get_regions\<close> and \<^verbatim>\<open>unsubscribe\<close> do with such a response: neither reads the
  error field. \<^verbatim>\<open>get_regions\<close> returns the data of the response, \<^verbatim>\<open>unsubscribe\<close> takes the
  response for the acknowledgment.
\<close>

lemma get_regions_unsubscribe_error_response:
  assumes "connected s" and "ws s = Some t" and "\<not> closed t"
    and "mid = fst (generate_message_id s ms)"
    and "map_of r ''id'' = Some (JStr mid)"
  shows "fst (get_regions loads s ms now [r]) = decode_data loads r \<and>
         fst (unsubscribe s d ms now [r]) = Inr ()"
proof -
  have ne: "mid \<noteq> []" using assms(4) generate_message_id_nonempty by simp
  from get_regions_start_ok[OF assms(1-3), of ms now] assms(4)
  obtain s1 where st: "get_regions_start s ms now =
        (Inr \<lparr>fr_id = mid, fr_future = next_future s\<rparr>, s1)"
    and reg: "message_handlers s1 mid = Some (next_future s)" "futures s1 (next_future s) = Pending"
    by auto
  from deliver_single_wait[OF assms(5) ne reg] st
  have g: "fst (get_regions loads s ms now [r]) = decode_data loads r"
    by (simp add: get_regions_def get_regions_resume_def)
  from unsubscribe_start_ok[OF assms(1-3), of d ms now] assms(4)
  obtain s2 where st2: "unsubscribe_start s d ms now =
        (Inr (Await \<lparr>fr_id = mid, fr_future = next_future s, fr_domain = d\<rparr>), s2)"
    and reg2: "message_handlers s2 mid = Some (next_future s)" "futures s2 (next_future s) = Pending"
    by auto
  from deliver_single_wait[OF assms(5) ne reg2] st2
  have "fst (unsubscribe s d ms now [r]) = Inr ()"
    by (simp add: unsubscribe_def unsubscribe_resume_def)
  with g show ?thesis by simp
qed

end
